theory Spec2Isabelle
  imports Complex_Main "HOL-Library.Char_ord" "HOL-Library.List_Lexorder"
    "HOL-Library.Product_Lexorder" "HOL-Library.Multiset" "HOL-Library.Monad_Syntax"
begin

section \<open>NHL player statistics tracker: season resolver\<close>

text \<open>
  The statistics module (\<^verbatim>\<open>nhlApi.ts\<close>) exists in two revisions: the legacy one, which
  talks to the roster endpoint and the per-player record endpoint, and the current one,
  which talks to the search endpoint and the season-statistics endpoint. Both contain the
  same season resolver.
\<close>

subsection \<open>Numbers rendered in template strings\<close>

text \<open>
  A template string \<^verbatim>\<open>`${year - 1}${year}`\<close> renders each integer in decimal, with a
  leading minus sign for a negative one.
\<close>

definition digit_char :: "nat \<Rightarrow> char" where
  "digit_char d = ''0123456789'' ! d"

fun nat_digits :: "nat \<Rightarrow> string" where
  "nat_digits n = (if n < 10 then [digit_char n] else nat_digits (n div 10) @ [digit_char (n mod 10)])"

definition toString :: "int \<Rightarrow> string" where
  "toString i = (if i < 0 then CHR ''-'' # nat_digits (nat (- i)) else nat_digits (nat i))"

subsection \<open>getCurrentNHLSeason\<close>

text \<open>
  The function reads the current date by \<^verbatim>\<open>new Date()\<close>; here the date is its argument.
  It is read through \<^verbatim>\<open>getFullYear()\<close> and \<^verbatim>\<open>getMonth()\<close> only, so a date is the pair
  of the two; the month index runs from 0 (January) to 11 (December).
\<close>

record Date =
  getFullYear :: int
  getMonth :: nat

definition getCurrentNHLSeason :: "Date \<Rightarrow> string" where
  "getCurrentNHLSeason now =
     (let year = getFullYear now; month = getMonth now
      in if month < 8 then toString (year - 1) @ toString year
         else toString year @ toString (year + 1))"

text \<open>The calendar of the specification: months by name, and the season each one lies in.\<close>

datatype month_name =
  January | February | March | April | May | June | July | August
  | September | October | November | December

fun month_index :: "month_name \<Rightarrow> nat" where
  "month_index January = 0"
| "month_index February = 1"
| "month_index March = 2"
| "month_index April = 3"
| "month_index May = 4"
| "month_index June = 5"
| "month_index July = 6"
| "month_index August = 7"
| "month_index September = 8"
| "month_index October = 9"
| "month_index November = 10"
| "month_index December = 11"

fun season_of :: "int \<Rightarrow> month_name \<Rightarrow> string" where
  "season_of Y September = toString Y @ toString (Y + 1)"
| "season_of Y October = toString Y @ toString (Y + 1)"
| "season_of Y November = toString Y @ toString (Y + 1)"
| "season_of Y December = toString Y @ toString (Y + 1)"
| "season_of Y m = toString (Y - 1) @ toString Y"


section \<open>The statistics module: strings, the player directory, search\<close>

subsection \<open>String operations\<close>

text \<open>
  A JavaScript string is a sequence of UTF-16 code units. The model keeps the code units
  0 to 255 (the Latin-1 range), one \<open>char\<close> each. On these, \<^verbatim>\<open>toLowerCase\<close> works unit by
  unit: it maps A to Z and the accented capitals 0xC0 to 0xDE, the multiplication sign 0xD7
  apart, to the unit 0x20 above, and leaves every other unit alone. \<^verbatim>\<open>trim\<close> removes the
  white space and line terminators of the language at both ends: tab, line feed, vertical
  tab, form feed, carriage return, space and no-break space (0xA0).
\<close>

definition upper_units :: "char list" where
  "upper_units =
     ''ABCDEFGHIJKLMNOPQRSTUVWXYZ'' @
       [CHR 0xC0, CHR 0xC1, CHR 0xC2, CHR 0xC3, CHR 0xC4, CHR 0xC5, CHR 0xC6, CHR 0xC7,
        CHR 0xC8, CHR 0xC9, CHR 0xCA, CHR 0xCB, CHR 0xCC, CHR 0xCD, CHR 0xCE, CHR 0xCF,
        CHR 0xD0, CHR 0xD1, CHR 0xD2, CHR 0xD3, CHR 0xD4, CHR 0xD5, CHR 0xD6, CHR 0xD8,
        CHR 0xD9, CHR 0xDA, CHR 0xDB, CHR 0xDC, CHR 0xDD, CHR 0xDE]"

definition lower_units :: "char list" where
  "lower_units =
     ''abcdefghijklmnopqrstuvwxyz'' @
       [CHR 0xE0, CHR 0xE1, CHR 0xE2, CHR 0xE3, CHR 0xE4, CHR 0xE5, CHR 0xE6, CHR 0xE7,
        CHR 0xE8, CHR 0xE9, CHR 0xEA, CHR 0xEB, CHR 0xEC, CHR 0xED, CHR 0xEE, CHR 0xEF,
        CHR 0xF0, CHR 0xF1, CHR 0xF2, CHR 0xF3, CHR 0xF4, CHR 0xF5, CHR 0xF6, CHR 0xF8,
        CHR 0xF9, CHR 0xFA, CHR 0xFB, CHR 0xFC, CHR 0xFD, CHR 0xFE]"

definition lower_table :: "(char \<times> char) list" where
  "lower_table = zip upper_units lower_units"

definition toLowerCase_char :: "char \<Rightarrow> char" where
  "toLowerCase_char c = (case map_of lower_table c of Some d \<Rightarrow> d | None \<Rightarrow> c)"

definition toLowerCase :: "string \<Rightarrow> string" where
  "toLowerCase s = map toLowerCase_char s"

definition is_space :: "char \<Rightarrow> bool" where
  "is_space c = (c \<in> set [CHR '' '', CHR 0x09, CHR 0x0A, CHR 0x0B, CHR 0x0C, CHR 0x0D, CHR 0xA0])"

definition trim :: "string \<Rightarrow> string" where
  "trim s = rev (dropWhile is_space (rev (dropWhile is_space s)))"

fun startsWith :: "string \<Rightarrow> string \<Rightarrow> bool" where
  "startsWith s [] = True"
| "startsWith [] (c # cs) = False"
| "startsWith (x # xs) (c # cs) = (x = c \<and> startsWith xs cs)"

fun str_includes :: "string \<Rightarrow> string \<Rightarrow> bool" where
  "str_includes [] t = (t = [])"
| "str_includes (x # xs) t = (startsWith (x # xs) t \<or> str_includes xs t)"

text \<open>
  \<^verbatim>\<open>a.localeCompare(b)\<close> is the collation of the host's locale: negative, zero or
  positive as \<open>a\<close> sorts before, with or after \<open>b\<close>. Which strings it puts first is
  not fixed by the language, so it is a parameter of the functions that call it. The
  language requires it to be a consistent comparison function: a string compares as 0 with
  itself, \<open>a\<close> sorts before \<open>b\<close> exactly when \<open>b\<close> sorts after \<open>a\<close>, and sorting before
  or with is transitive.
\<close>

definition consistent_comparison :: "('a \<Rightarrow> 'a \<Rightarrow> int) \<Rightarrow> bool" where
  "consistent_comparison cmp =
     ((\<forall>a. cmp a a = 0)
      \<and> (\<forall>a b. (cmp a b < 0) = (cmp b a > 0))
      \<and> (\<forall>a b c. cmp a b \<le> 0 \<and> cmp b c \<le> 0 \<longrightarrow> cmp a c \<le> 0))"

text \<open>
  One such collation, for examples: the lexicographic order of the code units, which is
  the alphabetical order on unaccented lower-case letters.
\<close>

definition code_unit_order :: "string \<Rightarrow> string \<Rightarrow> int" where
  "code_unit_order a b = (if a < b then - 1 else if b < a then 1 else 0)"

subsection \<open>Array.prototype.sort\<close>

text \<open>
  \<^verbatim>\<open>results.sort(compareFn)\<close> with a consistent comparison function is a stable sort:
  it places \<open>a\<close> before \<open>b\<close> when \<open>compareFn a b < 0\<close> and keeps the original order
  of two elements that compare as 0. Insertion from the right is such a sort.
\<close>

fun sort_insert :: "('a \<Rightarrow> 'a \<Rightarrow> int) \<Rightarrow> 'a \<Rightarrow> 'a list \<Rightarrow> 'a list" where
  "sort_insert compareFn x [] = [x]"
| "sort_insert compareFn x (y # ys) =
     (if compareFn x y \<le> 0 then x # y # ys else y # sort_insert compareFn x ys)"

fun Array_sort :: "('a \<Rightarrow> 'a \<Rightarrow> int) \<Rightarrow> 'a list \<Rightarrow> 'a list" where
  "Array_sort compareFn [] = []"
| "Array_sort compareFn (x # xs) = sort_insert compareFn x (Array_sort compareFn xs)"

subsection \<open>The Map of cached players\<close>

text \<open>
  A \<^verbatim>\<open>Map<number, {id, fullName}>\<close> iterates in insertion order; setting a key that is
  already present replaces its value where it stands. \<^verbatim>\<open>new Map(pairs)\<close> sets the pairs
  from left to right.
\<close>

record DirectoryEntry =
  entry_id :: int
  fullName :: string

type_synonym PlayerMap = "(int \<times> DirectoryEntry) list"

fun Map_set :: "int \<Rightarrow> 'v \<Rightarrow> (int \<times> 'v) list \<Rightarrow> (int \<times> 'v) list" where
  "Map_set k v [] = [(k, v)]"
| "Map_set k v (p # m) = (if fst p = k then (k, v) # m else p # Map_set k v m)"

definition new_Map :: "(int \<times> 'v) list \<Rightarrow> (int \<times> 'v) list" where
  "new_Map pairs = foldl (\<lambda>m p. Map_set (fst p) (snd p) m) [] pairs"

definition Map_values :: "(int \<times> 'v) list \<Rightarrow> 'v list" where
  "Map_values m = map snd m"

subsection \<open>Requests and responses\<close>

text \<open>
  A call of \<^verbatim>\<open>fetch\<close> either throws (no connection) or yields a response with its
  \<^verbatim>\<open>ok\<close> flag and a body; \<^verbatim>\<open>response.json()\<close> throws on a body that is not JSON
  (\<open>None\<close>) and yields the parsed payload otherwise. The module's state is its cache
  variable; the list of the URLs requested so far is kept beside it, so that requests can
  be counted.
\<close>

datatype 'a response = NetworkError | Response bool "'a option"

record ApiState =
  cachedPlayers :: "PlayerMap option"
  requests :: "string list"

definition fetch :: "string \<Rightarrow> ApiState \<Rightarrow> ApiState" where
  "fetch url st = st\<lparr>requests := requests st @ [url]\<rparr>"

text \<open>
  The payload of the bulk request: in the legacy revision an object whose \<^verbatim>\<open>people\<close>
  field may be absent, in the current revision a value that may not be an array; \<open>None\<close>
  stands for either. An element carries the player's identifier (\<^verbatim>\<open>id\<close>, respectively
  \<^verbatim>\<open>playerId\<close>) and \<^verbatim>\<open>fullName\<close>.
\<close>

type_synonym DirectoryPayload = "DirectoryEntry list option"

definition PLAYERS_URL_legacy :: string where
  "PLAYERS_URL_legacy = ''https://statsapi.nhl.com/api/v1/players''"

definition SEARCH_URL :: string where
  "SEARCH_URL = ''https://search.d3.nhle.com/api/v1/search/player?culture=en-us&limit=50000&q=*''"

text \<open>
  \<^verbatim>\<open>loadAllPlayers\<close>. The two revisions differ in the URL and in the name of the payload's
  fields only; \<open>answer\<close> is what the provider replies should the request be issued.
\<close>

definition loadAllPlayers ::
  "string \<Rightarrow> DirectoryPayload response \<Rightarrow> ApiState \<Rightarrow> PlayerMap \<times> ApiState" where
  "loadAllPlayers url answer st =
     (case cachedPlayers st of
        Some m \<Rightarrow> (m, st)
      | None \<Rightarrow>
          (let st1 = fetch url st in
           case answer of
             NetworkError \<Rightarrow> ([], st1)
           | Response ok body \<Rightarrow>
               if \<not> ok then ([], st1)
               else (case body of
                       None \<Rightarrow> ([], st1)
                     | Some None \<Rightarrow> ([], st1)
                     | Some (Some people) \<Rightarrow>
                         if length people = 0 then ([], st1)
                         else (let m = new_Map (map (\<lambda>player. (entry_id player, player)) people)
                               in (m, st1\<lparr>cachedPlayers := Some m\<rparr>)))))"

subsection \<open>searchNHLPlayers\<close>

record NHLApiPlayer =
  api_id :: int
  api_name :: string

text \<open>The loop that collects the matching players, in the Map's order.\<close>

definition matching_players :: "string \<Rightarrow> PlayerMap \<Rightarrow> NHLApiPlayer list" where
  "matching_players searchLower allPlayers =
     map (\<lambda>player. \<lparr>api_id = entry_id player, api_name = fullName player\<rparr>)
       (filter (\<lambda>player. str_includes (toLowerCase (fullName player)) searchLower)
          (Map_values allPlayers))"

text \<open>The comparator of the legacy revision: exact match, then prefix match, else 0.\<close>

definition compare_legacy :: "string \<Rightarrow> NHLApiPlayer \<Rightarrow> NHLApiPlayer \<Rightarrow> int" where
  "compare_legacy searchLower a b =
     (let aExact = (toLowerCase (api_name a) = searchLower);
          bExact = (toLowerCase (api_name b) = searchLower)
      in if aExact \<and> \<not> bExact then - 1
         else if \<not> aExact \<and> bExact then 1
         else (let aStartsWith = startsWith (toLowerCase (api_name a)) searchLower;
                   bStartsWith = startsWith (toLowerCase (api_name b)) searchLower
               in if aStartsWith \<and> \<not> bStartsWith then - 1
                  else if \<not> aStartsWith \<and> bStartsWith then 1
                  else 0))"

text \<open>
  The comparator of the current revision: the same, falling back to the collation of the
  lower-cased names.
\<close>

definition compare_current ::
  "(string \<Rightarrow> string \<Rightarrow> int) \<Rightarrow> string \<Rightarrow> NHLApiPlayer \<Rightarrow> NHLApiPlayer \<Rightarrow> int" where
  "compare_current localeCompare searchLower a b =
     (let aNameLower = toLowerCase (api_name a);
          bNameLower = toLowerCase (api_name b);
          aExact = (aNameLower = searchLower);
          bExact = (bNameLower = searchLower)
      in if aExact \<and> \<not> bExact then - 1
         else if \<not> aExact \<and> bExact then 1
         else (let aStartsWith = startsWith aNameLower searchLower;
                   bStartsWith = startsWith bNameLower searchLower
               in if aStartsWith \<and> \<not> bStartsWith then - 1
                  else if \<not> aStartsWith \<and> bStartsWith then 1
                  else localeCompare aNameLower bNameLower))"

definition searchNHLPlayers_legacy ::
  "string \<Rightarrow> DirectoryPayload response \<Rightarrow> ApiState \<Rightarrow> NHLApiPlayer list \<times> ApiState" where
  "searchNHLPlayers_legacy query answer st =
     (case loadAllPlayers PLAYERS_URL_legacy answer st of
        (allPlayers, st1) \<Rightarrow>
          if length allPlayers = 0 then ([], st1)
          else (let searchLower = trim (toLowerCase query);
                    results = matching_players searchLower allPlayers
                in (Array_sort (compare_legacy searchLower) results, st1)))"

definition searchNHLPlayers ::
  "(string \<Rightarrow> string \<Rightarrow> int) \<Rightarrow> string \<Rightarrow> DirectoryPayload response \<Rightarrow> ApiState
     \<Rightarrow> NHLApiPlayer list \<times> ApiState" where
  "searchNHLPlayers localeCompare query answer st =
     (case loadAllPlayers SEARCH_URL answer st of
        (allPlayers, st1) \<Rightarrow>
          if length allPlayers = 0 then ([], st1)
          else (let searchLower = trim (toLowerCase query);
                    results = matching_players searchLower allPlayers
                in (Array_sort (compare_current localeCompare searchLower) results, st1)))"



subsection \<open>The ranking in the words of the specification\<close>

text \<open>
  The tier of a result for a trimmed, lower-cased query: 0 for an exact match of the
  lower-cased name, 1 for a proper prefix match, 2 for any other match.
\<close>

definition tier :: "string \<Rightarrow> NHLApiPlayer \<Rightarrow> nat" where
  "tier searchLower a =
     (if toLowerCase (api_name a) = searchLower then 0
      else if startsWith (toLowerCase (api_name a)) searchLower then 1 else 2)"

text \<open>
  Tiers in order, and inside a tier alphabetical by lower-cased name: the first name sorts
  before or with the second in the collation.
\<close>

definition ranked_before ::
  "(string \<Rightarrow> string \<Rightarrow> int) \<Rightarrow> string \<Rightarrow> NHLApiPlayer \<Rightarrow> NHLApiPlayer \<Rightarrow> bool" where
  "ranked_before collation searchLower a b =
     (tier searchLower a < tier searchLower b
      \<or> (tier searchLower a = tier searchLower b
         \<and> collation (toLowerCase (api_name a)) (toLowerCase (api_name b)) \<le> 0))"

text \<open>Tiers in order, with nothing said about the order inside a tier.\<close>

definition tier_before :: "string \<Rightarrow> NHLApiPlayer \<Rightarrow> NHLApiPlayer \<Rightarrow> bool" where
  "tier_before searchLower a b = (tier searchLower a \<le> tier searchLower b)"

definition to_api :: "DirectoryEntry \<Rightarrow> NHLApiPlayer" where
  "to_api player = \<lparr>api_id = entry_id player, api_name = fullName player\<rparr>"

text \<open>The lower-cased full name contains the query as a contiguous substring.\<close>

definition name_contains :: "string \<Rightarrow> DirectoryEntry \<Rightarrow> bool" where
  "name_contains searchLower player =
     (\<exists>ps ss. toLowerCase (fullName player) = ps @ searchLower @ ss)"


section \<open>The statistics module: getNHLPlayerStats\<close>

subsection \<open>Parsed JSON and the operations the code applies to it\<close>

text \<open>
  \<^verbatim>\<open>response.json()\<close> yields any JSON value; the code reads it without checking its
  shape, inside a \<^verbatim>\<open>try\<close> block whose \<^verbatim>\<open>catch\<close> returns \<^verbatim>\<open>null\<close>. Numbers are integers
  (identifiers and counters). A JavaScript value is a JSON value or \<^verbatim>\<open>undefined\<close>
  (\<open>None\<close>). An operation that can throw a TypeError yields \<open>None\<close> when it throws.
\<close>

datatype json =
  JNull | JBool bool | JNum int | JStr string | JArr "json list" | JObj "(string \<times> json) list"

type_synonym js_value = "json option"

type_synonym 'a throwing = "'a option"

text \<open>
  \<^verbatim>\<open>v.k\<close> for the property names the code reads, none of which is inherited: it throws
  on \<^verbatim>\<open>undefined\<close> and \<^verbatim>\<open>null\<close>; on an object it is the member of that name (the last
  one, should the text repeat a name); arrays and strings have \<^verbatim>\<open>length\<close>; everything
  else is \<^verbatim>\<open>undefined\<close>.
\<close>

definition js_prop :: "js_value \<Rightarrow> string \<Rightarrow> js_value throwing" where
  "js_prop v k =
     (case v of
        None \<Rightarrow> None
      | Some JNull \<Rightarrow> None
      | Some (JObj members) \<Rightarrow> Some (map_of (rev members) k)
      | Some (JArr xs) \<Rightarrow> Some (if k = ''length'' then Some (JNum (int (length xs))) else None)
      | Some (JStr s) \<Rightarrow> Some (if k = ''length'' then Some (JNum (int (length s))) else None)
      | Some (JBool b) \<Rightarrow> Some None
      | Some (JNum n) \<Rightarrow> Some None)"

text \<open>\<^verbatim>\<open>v[0]\<close>: the first element of an array, the first unit of a string, the member "0" of an object.\<close>

definition js_first :: "js_value \<Rightarrow> js_value throwing" where
  "js_first v =
     (case v of
        None \<Rightarrow> None
      | Some JNull \<Rightarrow> None
      | Some (JArr xs) \<Rightarrow> Some (case xs of [] \<Rightarrow> None | x # _ \<Rightarrow> Some x)
      | Some (JStr s) \<Rightarrow> Some (case s of [] \<Rightarrow> None | c # _ \<Rightarrow> Some (JStr [c]))
      | Some (JObj members) \<Rightarrow> Some (map_of (rev members) ''0'')
      | Some (JBool b) \<Rightarrow> Some None
      | Some (JNum n) \<Rightarrow> Some None)"

text \<open>What \<^verbatim>\<open>!v\<close>, \<^verbatim>\<open>||\<close> and \<^verbatim>\<open>if\<close> take for true.\<close>

definition truthy :: "js_value \<Rightarrow> bool" where
  "truthy v =
     (case v of
        None \<Rightarrow> False
      | Some JNull \<Rightarrow> False
      | Some (JBool b) \<Rightarrow> b
      | Some (JNum n) \<Rightarrow> n \<noteq> 0
      | Some (JStr s) \<Rightarrow> s \<noteq> []
      | Some (JArr xs) \<Rightarrow> True
      | Some (JObj members) \<Rightarrow> True)"

text \<open>\<^verbatim>\<open>v || 0\<close> and \<^verbatim>\<open>v || []\<close>.\<close>

definition js_or0 :: "js_value \<Rightarrow> json" where
  "js_or0 v = (case v of None \<Rightarrow> JNum 0 | Some j \<Rightarrow> if truthy v then j else JNum 0)"

definition js_or_empty :: "js_value \<Rightarrow> json" where
  "js_or_empty v = (case v of None \<Rightarrow> JArr [] | Some j \<Rightarrow> if truthy v then j else JArr [])"

text \<open>
  \<^verbatim>\<open>xs.find(callback)\<close>: the first element on which the callback yields true, or
  \<^verbatim>\<open>undefined\<close>; it throws when the callback throws, and when \<open>xs\<close> is not an array
  (no JSON value but an array has a callable \<^verbatim>\<open>find\<close>).
\<close>

fun find_throwing :: "(json \<Rightarrow> bool throwing) \<Rightarrow> json list \<Rightarrow> js_value throwing" where
  "find_throwing callback [] = Some None"
| "find_throwing callback (x # xs) =
     (case callback x of
        None \<Rightarrow> None
      | Some True \<Rightarrow> Some (Some x)
      | Some False \<Rightarrow> find_throwing callback xs)"

definition Array_find :: "(json \<Rightarrow> bool throwing) \<Rightarrow> json \<Rightarrow> js_value throwing" where
  "Array_find callback v = (case v of JArr xs \<Rightarrow> find_throwing callback xs | _ \<Rightarrow> None)"

text \<open>
  \<^verbatim>\<open>v > 0\<close> and \<^verbatim>\<open>a + b\<close>. On numbers they are the comparison and the sum; \<^verbatim>\<open>true\<close>
  counts as 1 and \<^verbatim>\<open>false\<close> and \<^verbatim>\<open>null\<close> as 0 in a comparison. What the language's
  conversions make of strings, arrays and objects (and of a sum with an operand that is
  not a number) is a parameter.
\<close>

definition js_gt0 :: "(json \<Rightarrow> bool) \<Rightarrow> json \<Rightarrow> bool" where
  "js_gt0 converted_gt0 v =
     (case v of
        JNum n \<Rightarrow> n > 0
      | JBool b \<Rightarrow> b
      | JNull \<Rightarrow> False
      | other \<Rightarrow> converted_gt0 other)"


subsection \<open>The result\<close>

text \<open>
  The result as the TypeScript interface declares it (the legacy revision declares one
  more field, \<^verbatim>\<open>points\<close>); the refresh pass reads \<^verbatim>\<open>pointsGames\<close>, \<^verbatim>\<open>totalGames\<close> and
  \<^verbatim>\<open>shots\<close>.
\<close>

record PlayerStatsResult =
  playerId :: int
  playerName :: string
  pointsGames :: int
  totalGames :: int
  shots :: int

text \<open>
  The object as the function builds it: its fields hold what the payload held, whatever
  the interface declares.
\<close>

record StatsObject =
  obj_playerId :: js_value
  obj_playerName :: js_value
  obj_pointsGames :: json
  obj_totalGames :: json
  obj_shots :: json

record LegacyStatsObject = StatsObject +
  obj_points :: json


definition NHL_API_BASE_legacy :: string where
  "NHL_API_BASE_legacy = ''https://statsapi.nhl.com/api/v1''"


subsection \<open>Legacy revision: the per-player record\<close>

definition PERSON_URL_legacy :: "int \<Rightarrow> string" where
  "PERSON_URL_legacy playerId' = NHL_API_BASE_legacy @ ''/people/'' @ toString playerId'"

text \<open>The callbacks of the two \<^verbatim>\<open>find\<close> calls.\<close>

definition is_regular_season :: "json \<Rightarrow> bool throwing" where
  "is_regular_season s =
     do {
       type' \<leftarrow> js_prop (Some s) ''type'';
       if type' = None \<or> type' = Some JNull then Some False
       else do {
         displayName' \<leftarrow> js_prop type' ''displayName'';
         Some (displayName' = Some (JStr ''regularSeasonStatRest''))
       }
     }"

definition is_season :: "string \<Rightarrow> json \<Rightarrow> bool throwing" where
  "is_season currentSeason s =
     do {
       season' \<leftarrow> js_prop (Some s) ''season'';
       Some (season' = Some (JStr currentSeason))
     }"

text \<open>The snapshot with no games, for the player record at hand.\<close>

definition zero_object_legacy :: "js_value \<Rightarrow> LegacyStatsObject throwing" where
  "zero_object_legacy player =
     do {
       id' \<leftarrow> js_prop player ''id'';
       fullName' \<leftarrow> js_prop player ''fullName'';
       Some \<lparr>obj_playerId = id', obj_playerName = fullName', obj_pointsGames = JNum 0,
             obj_totalGames = JNum 0, obj_shots = JNum 0, obj_points = JNum 0\<rparr>
     }"

text \<open>
  From \<^verbatim>\<open>const stats = player.stats || []\<close> to the second \<^verbatim>\<open>find\<close>: the record of the
  current season in the first group named \<^verbatim>\<open>regularSeasonStatRest\<close>, or \<^verbatim>\<open>undefined\<close>
  when there is no such group or no such record.
\<close>

definition find_season_data :: "string \<Rightarrow> js_value \<Rightarrow> js_value throwing" where
  "find_season_data currentSeason player =
     do {
       stats' \<leftarrow> js_prop player ''stats'';
       regularSeasonStats \<leftarrow> Array_find is_regular_season (js_or_empty stats');
       if \<not> truthy regularSeasonStats then Some None
       else do {
         group_stats' \<leftarrow> js_prop regularSeasonStats ''stats'';
         Array_find (is_season currentSeason) (js_or_empty group_stats')
       }
     }"

text \<open>
  The body of the \<^verbatim>\<open>try\<close> block from the parsed payload on: what the function returns
  (\<open>None\<close> inside for \<^verbatim>\<open>null\<close>), or a thrown TypeError. \<open>converted_gt0\<close> is the
  comparison \<^verbatim>\<open>points > 0\<close> on a value that is not a number. The template string of the
  log line reads \<^verbatim>\<open>player.fullName\<close> before the statistics are looked at.
\<close>

definition legacy_stats_of_payload ::
  "(json \<Rightarrow> bool) \<Rightarrow> string \<Rightarrow> json \<Rightarrow> LegacyStatsObject option throwing" where
  "legacy_stats_of_payload converted_gt0 currentSeason data =
     do {
       people' \<leftarrow> js_prop (Some data) ''people'';
       if \<not> truthy people' then Some None
       else do {
         n \<leftarrow> js_prop people' ''length'';
         if n = Some (JNum 0) then Some None
         else do {
           player \<leftarrow> js_first people';
           logged \<leftarrow> js_prop player ''fullName'';
           seasonData \<leftarrow> find_season_data currentSeason player;
           if \<not> truthy seasonData then map_option Some (zero_object_legacy player)
           else do {
             gamesPlayed' \<leftarrow> js_prop seasonData ''gamesPlayed'';
             points' \<leftarrow> js_prop seasonData ''points'';
             shots' \<leftarrow> js_prop seasonData ''shots'';
             id' \<leftarrow> js_prop player ''id'';
             fullName' \<leftarrow> js_prop player ''fullName'';
             Some (Some \<lparr>obj_playerId = id', obj_playerName = fullName',
                          obj_pointsGames =
                            (if js_gt0 converted_gt0 (js_or0 points') then js_or0 gamesPlayed'
                             else JNum 0),
                          obj_totalGames = js_or0 gamesPlayed',
                          obj_shots = js_or0 shots',
                          obj_points = js_or0 points'\<rparr>)
           }
         }
       }
     }"

text \<open>
  \<^verbatim>\<open>getNHLPlayerStats(playerIdOrName)\<close>, legacy revision. \<open>now\<close> is the date read by the
  season resolver, \<open>players_answer\<close> the provider's reply to the bulk request and
  \<open>person_answer\<close> its reply to the request for a player's record, should they be issued.
  Every exception inside is caught and turned into \<^verbatim>\<open>null\<close> (\<open>None\<close>). A local
  variable whose name is also a field name carries a prime.
\<close>

definition getNHLPlayerStats_legacy ::
  "(json \<Rightarrow> bool) \<Rightarrow> int + string \<Rightarrow> Date \<Rightarrow> DirectoryPayload response
     \<Rightarrow> (int \<Rightarrow> json response) \<Rightarrow> ApiState \<Rightarrow> LegacyStatsObject option \<times> ApiState" where
  "getNHLPlayerStats_legacy converted_gt0 playerIdOrName now players_answer person_answer st =
     (case (case playerIdOrName of
              Inr nm \<Rightarrow>
                (case searchNHLPlayers_legacy nm players_answer st of
                   (players, st1) \<Rightarrow>
                     (case players of [] \<Rightarrow> (None, st1) | p # _ \<Rightarrow> (Some (api_id p), st1)))
            | Inl n \<Rightarrow> (Some n, st)) of
        (None, st1) \<Rightarrow> (None, st1)
      | (Some playerId', st1) \<Rightarrow>
          (let st2 = fetch (PERSON_URL_legacy playerId') st1 in
           case person_answer playerId' of
             NetworkError \<Rightarrow> (None, st2)
           | Response ok body \<Rightarrow>
               if \<not> ok then (None, st2)
               else (case body of
                       None \<Rightarrow> (None, st2)
                     | Some data \<Rightarrow>
                         (case legacy_stats_of_payload converted_gt0
                                 (getCurrentNHLSeason now) data of
                            None \<Rightarrow> (None, st2)
                          | Some result \<Rightarrow> (result, st2)))))"

subsection \<open>Current revision: the season statistics\<close>



definition zero_stats :: "int \<Rightarrow> PlayerStatsResult" where
  "zero_stats playerId' =
     \<lparr>playerId = playerId', playerName = ''Unknown Player'',
      pointsGames = 0, totalGames = 0, shots = 0\<rparr>"

text \<open>
  The condition \<^verbatim>\<open>!data.stats || data.stats.length === 0 || !data.stats[0].splits ||
  data.stats[0].splits.length === 0\<close>, evaluated from left to right.
\<close>

definition no_splits :: "json \<Rightarrow> bool throwing" where
  "no_splits data =
     do {
       stats' \<leftarrow> js_prop (Some data) ''stats'';
       if \<not> truthy stats' then Some True
       else do {
         n \<leftarrow> js_prop stats' ''length'';
         if n = Some (JNum 0) then Some True
         else do {
           block \<leftarrow> js_first stats';
           splits' \<leftarrow> js_prop block ''splits'';
           if \<not> truthy splits' then Some True
           else do {
             m \<leftarrow> js_prop splits' ''length'';
             Some (m = Some (JNum 0))
           }
         }
       }
     }"



subsection \<open>The cases of the specification\<close>


text \<open>
  The player record the legacy code reads from a payload: \<^verbatim>\<open>data.people[0]\<close>, when
  \<^verbatim>\<open>data\<close> is not \<^verbatim>\<open>null\<close>, \<^verbatim>\<open>data.people\<close> passes the guard (it is there, it is not
  falsy and its \<^verbatim>\<open>length\<close> is not 0) and its first element is neither \<^verbatim>\<open>undefined\<close> nor
  \<^verbatim>\<open>null\<close>.
\<close>

definition first_person :: "json \<Rightarrow> json option" where
  "first_person data =
     (case js_prop (Some data) ''people'' of
        None \<Rightarrow> None
      | Some people' \<Rightarrow>
          if truthy people' \<and> js_prop people' ''length'' \<noteq> Some (Some (JNum 0))
          then (case js_first people' of
                  Some (Some player) \<Rightarrow> if player = JNull then None else Some player
                | _ \<Rightarrow> None)
          else None)"

subsection \<open>Well-formed legacy payloads\<close>

text \<open>
  The payload as the provider documents it: people, each with groups of season records,
  every field but the identifiers optional; and the JSON value that carries it.
\<close>

record SeasonStats =
  season :: string
  gamesPlayed :: "int option"
  season_points :: "int option"
  season_shots :: "int option"

record StatGroup =
  displayName :: "string option"
  group_stats :: "SeasonStats list option"

record Person =
  person_id :: int
  person_fullName :: string
  person_stats :: "StatGroup list option"

type_synonym PersonPayload = "Person list option"

definition member :: "string \<Rightarrow> ('a \<Rightarrow> json) \<Rightarrow> 'a option \<Rightarrow> (string \<times> json) list" where
  "member k to_json v = (case v of None \<Rightarrow> [] | Some x \<Rightarrow> [(k, to_json x)])"

definition json_of_season :: "SeasonStats \<Rightarrow> json" where
  "json_of_season sd =
     JObj ([(''season'', JStr (season sd))]
           @ member ''gamesPlayed'' JNum (gamesPlayed sd)
           @ member ''points'' JNum (season_points sd)
           @ member ''shots'' JNum (season_shots sd))"

definition json_of_group :: "StatGroup \<Rightarrow> json" where
  "json_of_group g =
     JObj (member ''type'' (\<lambda>d. JObj [(''displayName'', JStr d)]) (displayName g)
           @ member ''stats'' (\<lambda>records. JArr (map json_of_season records)) (group_stats g))"

definition json_of_person :: "Person \<Rightarrow> json" where
  "json_of_person p =
     JObj ([(''id'', JNum (person_id p)), (''fullName'', JStr (person_fullName p))]
           @ member ''stats'' (\<lambda>groups. JArr (map json_of_group groups)) (person_stats p))"

definition json_of_payload :: "PersonPayload \<Rightarrow> json" where
  "json_of_payload payload =
     JObj (member ''people'' (\<lambda>persons. JArr (map json_of_person persons)) payload)"

text \<open>\<^verbatim>\<open>xs || []\<close> on a list field that may be absent.\<close>

definition or_empty :: "'a list option \<Rightarrow> 'a list" where
  "or_empty xs = (case xs of None \<Rightarrow> [] | Some ys \<Rightarrow> ys)"

text \<open>
  The season record of a person for a season: the record of that season in the first group
  named \<^verbatim>\<open>regularSeasonStatRest\<close>, if there is such a group and such a record.
\<close>

definition season_record :: "string \<Rightarrow> Person \<Rightarrow> SeasonStats option" where
  "season_record currentSeason player =
     (case find (\<lambda>s. displayName s = Some ''regularSeasonStatRest'') (or_empty (person_stats player)) of
        None \<Rightarrow> None
      | Some rss \<Rightarrow> find (\<lambda>s. season s = currentSeason) (or_empty (group_stats rss)))"

subsection \<open>Sample payloads\<close>

definition sample_date :: Date where
  "sample_date = \<lparr>getFullYear = 2024, getMonth = 10\<rparr>"

definition sample_season :: SeasonStats where
  "sample_season =
     \<lparr>season = ''20242025'', gamesPlayed = Some 67, season_points = Some 100,
      season_shots = Some 199\<rparr>"

text \<open>A player with a record of the season 2024-25, and one the provider has no statistics of.\<close>

definition sample_person :: Person where
  "sample_person =
     \<lparr>person_id = 8478402, person_fullName = ''Connor McDavid'',
      person_stats = Some [\<lparr>displayName = Some ''regularSeasonStatRest'',
                             group_stats = Some [sample_season]\<rparr>]\<rparr>"



definition sample_fresh :: ApiState where
  "sample_fresh = \<lparr>cachedPlayers = None, requests = []\<rparr>"

section \<open>The application: rows, updates, the refresh pass, ratios\<close>

subsection \<open>Rows of the table nhl\_players\<close>

text \<open>
  A row of \<^verbatim>\<open>nhl_players\<close>. The primary key \<^verbatim>\<open>id\<close> is called \<open>row_id\<close> here. Timestamps
  are instants on one linear time scale (the column type is \<^verbatim>\<open>timestamptz\<close>; the ISO
  strings the client writes denote such instants).
\<close>

type_synonym timestamp = int

record NHLPlayer =
  row_id :: string
  name :: string
  nhl_player_id :: int
  points_games :: int
  points_total_games :: int
  shots_threshold :: rat
  shots_games :: int
  shots_total_games :: int
  created_at :: timestamp
  updated_at :: timestamp

text \<open>\<^verbatim>\<open>Partial<NHLPlayer>\<close>: every field may be absent.\<close>

record NHLPlayer_partial =
  p_row_id :: "string option"
  p_name :: "string option"
  p_nhl_player_id :: "int option"
  p_points_games :: "int option"
  p_points_total_games :: "int option"
  p_shots_threshold :: "rat option"
  p_shots_games :: "int option"
  p_shots_total_games :: "int option"
  p_created_at :: "timestamp option"
  p_updated_at :: "timestamp option"

text \<open>The object \<^verbatim>\<open>{}\<close>.\<close>

definition no_fields :: NHLPlayer_partial where
  "no_fields =
     \<lparr>p_row_id = None, p_name = None, p_nhl_player_id = None, p_points_games = None,
      p_points_total_games = None, p_shots_threshold = None, p_shots_games = None,
      p_shots_total_games = None, p_created_at = None, p_updated_at = None\<rparr>"

definition or_else :: "'a option \<Rightarrow> 'a \<Rightarrow> 'a" where
  "or_else x d = (case x of None \<Rightarrow> d | Some v \<Rightarrow> v)"

text \<open>A row after the fields present in \<open>values\<close> have been written to it.\<close>

definition write_fields :: "NHLPlayer_partial \<Rightarrow> NHLPlayer \<Rightarrow> NHLPlayer" where
  "write_fields values r =
     \<lparr>row_id = or_else (p_row_id values) (row_id r),
      name = or_else (p_name values) (name r),
      nhl_player_id = or_else (p_nhl_player_id values) (nhl_player_id r),
      points_games = or_else (p_points_games values) (points_games r),
      points_total_games = or_else (p_points_total_games values) (points_total_games r),
      shots_threshold = or_else (p_shots_threshold values) (shots_threshold r),
      shots_games = or_else (p_shots_games values) (shots_games r),
      shots_total_games = or_else (p_shots_total_games values) (shots_total_games r),
      created_at = or_else (p_created_at values) (created_at r),
      updated_at = or_else (p_updated_at values) (updated_at r)\<rparr>"

text \<open>
  \<^verbatim>\<open>supabase.from('nhl_players').update(values).eq('id', id)\<close> when the storage accepts
  it: the fields are written to every row whose \<^verbatim>\<open>id\<close> is the given one.
\<close>

definition supabase_update :: "NHLPlayer_partial \<Rightarrow> string \<Rightarrow> NHLPlayer list \<Rightarrow> NHLPlayer list" where
  "supabase_update values i tbl = map (\<lambda>r. if row_id r = i then write_fields values r else r) tbl"

text \<open>The storage either writes or reports an \<^verbatim>\<open>error\<close>; a rejected write changes nothing.\<close>

datatype write_reply = Written | Rejected

subsection \<open>handleUpdatePlayer\<close>

text \<open>
  \<open>storage\<close> is the storage's reply to a write on the row with a given \<^verbatim>\<open>id\<close>, \<open>now\<close>
  the reading of the client's clock (\<^verbatim>\<open>new Date()\<close>). The result is whether the failure
  alert was raised, and the table.
\<close>

definition handleUpdatePlayer ::
  "(string \<Rightarrow> write_reply) \<Rightarrow> timestamp \<Rightarrow> string \<Rightarrow> NHLPlayer_partial \<Rightarrow> NHLPlayer list
     \<Rightarrow> bool \<times> NHLPlayer list" where
  "handleUpdatePlayer storage now i updates tbl =
     (case storage i of
        Rejected \<Rightarrow> (True, tbl)
      | Written \<Rightarrow> (False, supabase_update (updates\<lparr>p_updated_at := Some now\<rparr>) i tbl))"

subsection \<open>handleRefreshStats\<close>

text \<open>
  A call made inside the \<^verbatim>\<open>try\<close> block either returns or throws; a thrown value is an
  \<^verbatim>\<open>Error\<close> with its message, or something else.
\<close>

datatype 'a outcome = Returned 'a | Threw "string option"

definition error_message :: "string option \<Rightarrow> string" where
  "error_message err = (case err of Some message \<Rightarrow> message | None \<Rightarrow> ''Unknown error'')"

text \<open>
  What the pass talks to: the statistics fetcher (keyed by what the pass hands it: the
  provider identifier in the current revision, the player's name in the legacy one), the
  storage's reply to a write on a row, and the clock read when that write is made.
\<close>

record ('k, 'a) Services =
  fetchStats :: "'k \<Rightarrow> 'a PlayerStatsResult_scheme option outcome"
  storage :: "string \<Rightarrow> write_reply outcome"
  clock :: "string \<Rightarrow> timestamp"

record RefreshResult =
  updatedCount :: nat
  failedPlayers :: "(string \<times> string) list"
  table :: "NHLPlayer list"

definition push_failure :: "string \<Rightarrow> string \<Rightarrow> RefreshResult \<Rightarrow> RefreshResult" where
  "push_failure nm reason s = s\<lparr>failedPlayers := failedPlayers s @ [(nm, reason)]\<rparr>"

text \<open>The object handed to \<^verbatim>\<open>update\<close> by the refresh pass.\<close>

definition stats_fields :: "'a PlayerStatsResult_scheme \<Rightarrow> timestamp \<Rightarrow> NHLPlayer_partial" where
  "stats_fields nhlStats now =
     no_fields\<lparr>p_points_games := Some (pointsGames nhlStats),
               p_points_total_games := Some (totalGames nhlStats),
               p_shots_games := Some (shots nhlStats),
               p_shots_total_games := Some (totalGames nhlStats),
               p_updated_at := Some now\<rparr>"

text \<open>The body of the loop, current revision.\<close>

definition refresh_player ::
  "(int, 'a) Services \<Rightarrow> NHLPlayer \<Rightarrow> RefreshResult \<Rightarrow> RefreshResult" where
  "refresh_player w player s =
     (if nhl_player_id player = 0
      then push_failure (name player) ''Missing NHL Player ID (Old manual entry)'' s
      else (case fetchStats w (nhl_player_id player) of
              Threw err \<Rightarrow> push_failure (name player) (error_message err) s
            | Returned None \<Rightarrow> push_failure (name player) ''Could not fetch stats from NHL API'' s
            | Returned (Some nhlStats) \<Rightarrow>
                if totalGames nhlStats = 0
                then push_failure (name player) ''No games played this season'' s
                else (case storage w (row_id player) of
                        Threw err \<Rightarrow> push_failure (name player) (error_message err) s
                      | Returned Rejected \<Rightarrow> push_failure (name player) ''Database update failed'' s
                      | Returned Written \<Rightarrow>
                          s\<lparr>table := supabase_update
                                        (stats_fields nhlStats (clock w (row_id player)))
                                        (row_id player) (table s),
                            updatedCount := updatedCount s + 1\<rparr>)))"

text \<open>The body of the loop, legacy revision: no identifier check, the fetch is by name.\<close>

definition refresh_player_legacy ::
  "(string, 'a) Services \<Rightarrow> NHLPlayer \<Rightarrow> RefreshResult \<Rightarrow> RefreshResult" where
  "refresh_player_legacy w player s =
     (case fetchStats w (name player) of
        Threw err \<Rightarrow> push_failure (name player) (error_message err) s
      | Returned None \<Rightarrow> push_failure (name player) ''Player not found in NHL database'' s
      | Returned (Some nhlStats) \<Rightarrow>
          if totalGames nhlStats = 0
          then push_failure (name player) ''No games played this season'' s
          else (case storage w (row_id player) of
                  Threw err \<Rightarrow> push_failure (name player) (error_message err) s
                | Returned Rejected \<Rightarrow> push_failure (name player) ''Database update failed'' s
                | Returned Written \<Rightarrow>
                    s\<lparr>table := supabase_update
                                  (stats_fields nhlStats (clock w (row_id player)))
                                  (row_id player) (table s),
                      updatedCount := updatedCount s + 1\<rparr>))"

text \<open>
  \<^verbatim>\<open>handleRefreshStats\<close>: the loop over the players held by the page, starting from no
  update and no failure, on the table as it stands.
\<close>

definition handleRefreshStats ::
  "(int, 'a) Services \<Rightarrow> NHLPlayer list \<Rightarrow> NHLPlayer list \<Rightarrow> RefreshResult" where
  "handleRefreshStats w players tbl =
     fold (refresh_player w) players \<lparr>updatedCount = 0, failedPlayers = [], table = tbl\<rparr>"

definition handleRefreshStats_legacy ::
  "(string, 'a) Services \<Rightarrow> NHLPlayer list \<Rightarrow> NHLPlayer list \<Rightarrow> RefreshResult" where
  "handleRefreshStats_legacy w players tbl =
     fold (refresh_player_legacy w) players \<lparr>updatedCount = 0, failedPlayers = [], table = tbl\<rparr>"

text \<open>
  The reason recorded for a player, if the pass does not update it; \<open>None\<close> when it
  writes the player's row.
\<close>

definition failure_reason :: "(int, 'a) Services \<Rightarrow> NHLPlayer \<Rightarrow> string option" where
  "failure_reason w player =
     (if nhl_player_id player = 0 then Some ''Missing NHL Player ID (Old manual entry)''
      else (case fetchStats w (nhl_player_id player) of
              Threw err \<Rightarrow> Some (error_message err)
            | Returned None \<Rightarrow> Some ''Could not fetch stats from NHL API''
            | Returned (Some nhlStats) \<Rightarrow>
                if totalGames nhlStats = 0 then Some ''No games played this season''
                else (case storage w (row_id player) of
                        Threw err \<Rightarrow> Some (error_message err)
                      | Returned Rejected \<Rightarrow> Some ''Database update failed''
                      | Returned Written \<Rightarrow> None)))"

text \<open>The same for the legacy revision.\<close>

definition failure_reason_legacy :: "(string, 'a) Services \<Rightarrow> NHLPlayer \<Rightarrow> string option" where
  "failure_reason_legacy w player =
     (case fetchStats w (name player) of
        Threw err \<Rightarrow> Some (error_message err)
      | Returned None \<Rightarrow> Some ''Player not found in NHL database''
      | Returned (Some nhlStats) \<Rightarrow>
          if totalGames nhlStats = 0 then Some ''No games played this season''
          else (case storage w (row_id player) of
                  Threw err \<Rightarrow> Some (error_message err)
                | Returned Rejected \<Rightarrow> Some ''Database update failed''
                | Returned Written \<Rightarrow> None))"

text \<open>What one iteration does to the table.\<close>

definition table_step :: "(int, 'a) Services \<Rightarrow> NHLPlayer \<Rightarrow> NHLPlayer list \<Rightarrow> NHLPlayer list" where
  "table_step w player tbl =
     table (refresh_player w player \<lparr>updatedCount = 0, failedPlayers = [], table = tbl\<rparr>)"

definition table_step_legacy ::
  "(string, 'a) Services \<Rightarrow> NHLPlayer \<Rightarrow> NHLPlayer list \<Rightarrow> NHLPlayer list" where
  "table_step_legacy w player tbl =
     table (refresh_player_legacy w player \<lparr>updatedCount = 0, failedPlayers = [], table = tbl\<rparr>)"

text \<open>The rows of a table that carry a given identifier.\<close>

definition rows_of :: "string \<Rightarrow> NHLPlayer list \<Rightarrow> NHLPlayer list" where
  "rows_of i tbl = filter (\<lambda>r. row_id r = i) tbl"

text \<open>The two denominators of a row coincide.\<close>

definition denominators_agree :: "NHLPlayer \<Rightarrow> bool" where
  "denominators_agree r = (points_total_games r = shots_total_games r)"

subsection \<open>PlayerRow: the ratios shown\<close>

text \<open>
  JavaScript numbers as far as the ratios need them: a finite value, or one of the special
  values a division can yield. A finite quotient is held exactly; its rounding to a double
  is not modelled. The operands are the integer columns of a row.
\<close>

datatype js_number = Finite rat | NaN | PosInfinity | NegInfinity

definition js_div :: "int \<Rightarrow> int \<Rightarrow> js_number" where
  "js_div a b =
     (if b = 0 then (if a = 0 then NaN else if a > 0 then PosInfinity else NegInfinity)
      else Finite (of_int a / of_int b))"

definition js_times :: "js_number \<Rightarrow> rat \<Rightarrow> js_number" where
  "js_times x k = (case x of Finite q \<Rightarrow> Finite (q * k) | other \<Rightarrow> other)"

text \<open>Current revision: \<^verbatim>\<open>pointsAverage\<close> and \<^verbatim>\<open>shotsPerGame\<close>.\<close>

definition pointsAverage :: "NHLPlayer \<Rightarrow> js_number" where
  "pointsAverage player =
     (if points_total_games player > 0
      then js_div (points_games player) (points_total_games player)
      else Finite 0)"

definition shotsPerGame :: "NHLPlayer \<Rightarrow> js_number" where
  "shotsPerGame player =
     (if shots_total_games player > 0
      then js_div (shots_games player) (shots_total_games player)
      else Finite 0)"

text \<open>
  Legacy revision: \<^verbatim>\<open>pointsPercentage\<close> and \<^verbatim>\<open>shotsPercentage\<close>, strings made by
  \<^verbatim>\<open>toFixed(1)\<close>, which is a parameter here.
\<close>

definition pointsPercentage :: "(js_number \<Rightarrow> string) \<Rightarrow> NHLPlayer \<Rightarrow> string" where
  "pointsPercentage toFixed1 player =
     (if points_total_games player > 0
      then toFixed1 (js_times (js_div (points_games player) (points_total_games player)) 100)
      else ''0.0'')"

definition shotsPercentage :: "(js_number \<Rightarrow> string) \<Rightarrow> NHLPlayer \<Rightarrow> string" where
  "shotsPercentage toFixed1 player =
     (if shots_total_games player > 0
      then toFixed1 (js_times (js_div (shots_games player) (shots_total_games player)) 100)
      else ''0.0'')"

subsection \<open>Sample data\<close>

text \<open>
  Three rows: one whose provider answers with ten games played, one whose provider answers
  with no game played, and an old manual entry without provider identifier.
\<close>

definition sample_active :: NHLPlayer where
  "sample_active =
     \<lparr>row_id = ''row-1'', name = ''Connor McDavid'', nhl_player_id = 8478402,
      points_games = 3, points_total_games = 4, shots_threshold = 5 / 2,
      shots_games = 9, shots_total_games = 5, created_at = 100, updated_at = 100\<rparr>"

definition sample_idle :: NHLPlayer where
  "sample_idle =
     \<lparr>row_id = ''row-2'', name = ''Some Rookie'', nhl_player_id = 8480000,
      points_games = 1, points_total_games = 2, shots_threshold = 3 / 2,
      shots_games = 4, shots_total_games = 2, created_at = 100, updated_at = 100\<rparr>"

definition sample_manual :: NHLPlayer where
  "sample_manual =
     \<lparr>row_id = ''row-3'', name = ''Old Entry'', nhl_player_id = 0,
      points_games = 0, points_total_games = 0, shots_threshold = 0,
      shots_games = 5, shots_total_games = 0, created_at = 100, updated_at = 100\<rparr>"

definition sample_snapshot :: PlayerStatsResult where
  "sample_snapshot =
     \<lparr>playerId = 8478402, playerName = ''Connor McDavid'', pointsGames = 14,
      totalGames = 10, shots = 37\<rparr>"

definition sample_services :: "(int, unit) Services" where
  "sample_services =
     \<lparr>fetchStats = (\<lambda>i. if i = 8478402 then Returned (Some sample_snapshot)
                        else if i = 8480000 then Returned (Some (zero_stats 8480000))
                        else Returned None),
      storage = (\<lambda>_. Returned Written),
      clock = (\<lambda>_. 200)\<rparr>"

definition sample_services_legacy :: "(string, unit) Services" where
  "sample_services_legacy =
     \<lparr>fetchStats = (\<lambda>n. if n = ''Connor McDavid'' then Returned (Some sample_snapshot)
                        else if n = ''Some Rookie'' then Returned (Some (zero_stats 8480000))
                        else Returned None),
      storage = (\<lambda>_. Returned Written),
      clock = (\<lambda>_. 200)\<rparr>"

section \<open>Properties of the season resolver\<close>

lemmas nat_digits_unfold = nat_digits.simps

declare nat_digits.simps [simp del]

text \<open>
  C3. For every date, the season resolver returns the previous and the current year
  concatenated when the month index is below 8 (January to August) and the current and
  the next year otherwise (September to December), for every year; it is a total function
  of the date, and every month index of a date is the index of a calendar month.
\<close>

theorem getCurrentNHLSeason_by_month:
  "getCurrentNHLSeason \<lparr>getFullYear = Y, getMonth = k\<rparr> =
     (if k < 8 then toString (Y - 1) @ toString Y else toString Y @ toString (Y + 1))
   \<and> getCurrentNHLSeason \<lparr>getFullYear = Y, getMonth = month_index m\<rparr> = season_of Y m
   \<and> (month_index m < 8) = (m \<in> {January, February, March, April, May, June, July, August})"
  by (cases m) (simp_all add: getCurrentNHLSeason_def)

theorem getCurrentNHLSeason_by_month_witness:
  "getCurrentNHLSeason \<lparr>getFullYear = 2024, getMonth = month_index August\<rparr> = ''20232024''
   \<and> getCurrentNHLSeason \<lparr>getFullYear = 2024, getMonth = month_index September\<rparr> = ''20242025''
   \<and> getCurrentNHLSeason \<lparr>getFullYear = 2025, getMonth = 0\<rparr> = ''20242025''
   \<and> getCurrentNHLSeason \<lparr>getFullYear = 1999, getMonth = 11\<rparr> = ''19992000''"
  using getCurrentNHLSeason_by_month [of 2024 7 August]
    getCurrentNHLSeason_by_month [of 2024 8 September]
    getCurrentNHLSeason_by_month [of 2025 0 January]
    getCurrentNHLSeason_by_month [of 1999 11 December]
  by (simp add: toString_def nat_digits_unfold digit_char_def)

section \<open>Properties of the search\<close>

lemma startsWith_iff: "startsWith s t \<longleftrightarrow> (\<exists>ss. s = t @ ss)"
  by (induction s t rule: startsWith.induct) auto

lemma str_includes_iff: "str_includes s t \<longleftrightarrow> (\<exists>ps ss. s = ps @ t @ ss)"
proof (induction s)
  case Nil
  then show ?case by auto
next
  case (Cons x xs)
  show ?case
  proof
    assume "str_includes (x # xs) t"
    then consider "startsWith (x # xs) t" | "str_includes xs t" by auto
    then show "\<exists>ps ss. x # xs = ps @ t @ ss"
    proof cases
      case 1
      then obtain ss where "x # xs = t @ ss" using startsWith_iff by blast
      then have "x # xs = [] @ t @ ss" by simp
      then show ?thesis by blast
    next
      case 2
      then obtain ps ss where "xs = ps @ t @ ss" using Cons.IH by blast
      then have "x # xs = (x # ps) @ t @ ss" by simp
      then show ?thesis by blast
    qed
  next
    assume "\<exists>ps ss. x # xs = ps @ t @ ss"
    then obtain ps ss where e: "x # xs = ps @ t @ ss" by blast
    show "str_includes (x # xs) t"
    proof (cases ps)
      case Nil
      with e have "startsWith (x # xs) t" using startsWith_iff by auto
      then show ?thesis by simp
    next
      case (Cons p ps')
      with e have "xs = ps' @ t @ ss" by simp
      then have "str_includes xs t" using Cons.IH by blast
      then show ?thesis by simp
    qed
  qed
qed

lemma Array_sort_sort_key:
  fixes k :: "'a \<Rightarrow> 'b::linorder"
  assumes "\<And>a b. (cmp a b \<le> 0) = (k a \<le> k b)"
  shows "Array_sort cmp xs = sort_key k xs"
proof -
  have ins: "sort_insert cmp x ys = insort_key k x ys" for x ys
    by (induction ys) (simp_all add: assms)
  show ?thesis by (induction xs) (simp_all add: ins)
qed

lemma startsWith_refl: "startsWith s s"
  by (simp add: startsWith_iff)

lemma compare_legacy_tier: "(compare_legacy q a b \<le> 0) = (tier q a \<le> tier q b)"
  by (auto simp: compare_legacy_def tier_def Let_def startsWith_refl)

lemma compare_current_ranked:
  "(compare_current coll q a b \<le> 0) = ranked_before coll q a b"
  by (auto simp: compare_current_def ranked_before_def tier_def Let_def startsWith_refl)

lemma ranked_before_total:
  assumes "consistent_comparison coll"
  shows "ranked_before coll q a b \<or> ranked_before coll q b a"
proof -
  let ?x = "toLowerCase (api_name a)" and ?y = "toLowerCase (api_name b)"
  have "coll ?x ?y \<le> 0 \<or> coll ?y ?x \<le> 0"
  proof (cases "coll ?x ?y \<le> 0")
    case True
    then show ?thesis by simp
  next
    case False
    then have "coll ?x ?y > 0" by simp
    then have "coll ?y ?x < 0" using assms by (simp add: consistent_comparison_def)
    then show ?thesis by simp
  qed
  then show ?thesis by (auto simp: ranked_before_def)
qed

lemma ranked_before_trans:
  assumes "consistent_comparison coll"
    and "ranked_before coll q a b" and "ranked_before coll q b c"
  shows "ranked_before coll q a c"
proof -
  have tr: "\<And>x y z. coll x y \<le> 0 \<Longrightarrow> coll y z \<le> 0 \<Longrightarrow> coll x z \<le> 0"
    using assms(1) unfolding consistent_comparison_def by blast
  show ?thesis
    using assms(2,3) tr [of "toLowerCase (api_name a)" "toLowerCase (api_name b)"
        "toLowerCase (api_name c)"]
    by (auto simp: ranked_before_def)
qed

lemma set_sort_insert: "set (sort_insert cmp x ys) = insert x (set ys)"
  by (induction ys) auto

lemma mset_sort_insert: "mset (sort_insert cmp x ys) = add_mset x (mset ys)"
  by (induction ys) auto

lemma mset_Array_sort: "mset (Array_sort cmp xs) = mset xs"
  by (induction xs) (simp_all add: mset_sort_insert)

lemma sorted_sort_insert:
  assumes total: "\<And>a b. R a b \<or> R b a"
    and trans: "\<And>a b c. R a b \<Longrightarrow> R b c \<Longrightarrow> R a c"
    and rel: "\<And>a b. (cmp a b \<le> 0) = R a b"
  shows "sorted_wrt R ys \<Longrightarrow> sorted_wrt R (sort_insert cmp x ys)"
proof (induction ys)
  case Nil
  then show ?case by simp
next
  case (Cons y ys)
  show ?case
  proof (cases "cmp x y \<le> 0")
    case True
    then have xy: "R x y" by (simp add: rel)
    have "\<forall>z\<in>set ys. R x z" using Cons.prems xy trans by auto
    then show ?thesis using True xy Cons.prems by simp
  next
    case False
    then have "R y x" using total [of x y] by (simp add: rel)
    then have "\<forall>z\<in>set (sort_insert cmp x ys). R y z"
      using Cons.prems by (auto simp: set_sort_insert)
    moreover have "sorted_wrt R (sort_insert cmp x ys)" using Cons by simp
    ultimately show ?thesis using False by simp
  qed
qed

lemma sorted_Array_sort:
  assumes "\<And>a b. R a b \<or> R b a"
    and "\<And>a b c. R a b \<Longrightarrow> R b c \<Longrightarrow> R a c"
    and "\<And>a b. (cmp a b \<le> 0) = R a b"
  shows "sorted_wrt R (Array_sort cmp xs)"
proof (induction xs)
  case Nil
  then show ?case by simp
next
  case (Cons x xs)
  then show ?case using sorted_sort_insert [of R cmp "Array_sort cmp xs" x] assms by simp
qed

lemma consistent_code_unit_order: "consistent_comparison code_unit_order"
  by (auto simp: consistent_comparison_def code_unit_order_def)

lemma loadAllPlayers_cached:
  "cachedPlayers st = Some m \<Longrightarrow> loadAllPlayers url answer st = (m, st)"
  by (simp add: loadAllPlayers_def)

lemma matching_players_filter:
  "matching_players q m = map to_api (filter (name_contains q) (Map_values m))"
proof -
  have "name_contains q = (\<lambda>player. str_includes (toLowerCase (fullName player)) q)"
    by (simp add: fun_eq_iff name_contains_def str_includes_iff)
  moreover have "to_api = (\<lambda>player. \<lparr>api_id = entry_id player, api_name = fullName player\<rparr>)"
    by (simp add: fun_eq_iff to_api_def)
  ultimately show ?thesis by (simp add: matching_players_def)
qed

lemma sorted_current:
  assumes "consistent_comparison coll"
  shows "sorted_wrt (ranked_before coll q) (Array_sort (compare_current coll q) xs)"
proof (rule sorted_Array_sort)
  fix a b show "ranked_before coll q a b \<or> ranked_before coll q b a"
    using assms by (rule ranked_before_total)
next
  fix a b c assume "ranked_before coll q a b" and "ranked_before coll q b c"
  then show "ranked_before coll q a c" using assms ranked_before_trans by blast
next
  fix a b show "(compare_current coll q a b \<le> 0) = ranked_before coll q a b"
    by (rule compare_current_ranked)
qed

lemma legacy_sort_key: "Array_sort (compare_legacy q) xs = sort_key (tier q) xs"
  by (rule Array_sort_sort_key) (rule compare_legacy_tier)

lemma sorted_legacy: "sorted_wrt (tier_before q) (Array_sort (compare_legacy q) xs)"
proof -
  have "sorted (map (tier q) (sort_key (tier q) xs))" by (rule sorted_sort_key)
  then have "sorted_wrt (\<lambda>a b. tier q a \<le> tier q b) (sort_key (tier q) xs)"
    by (simp add: sorted_map)
  moreover have "tier_before q = (\<lambda>a b. tier q a \<le> tier q b)"
    by (simp add: fun_eq_iff tier_before_def)
  ultimately show ?thesis by (simp add: legacy_sort_key)
qed

lemma stable_legacy:
  "filter (\<lambda>e. tier q e = k) (Array_sort (compare_legacy q) xs) = filter (\<lambda>e. tier q e = k) xs"
  by (simp add: legacy_sort_key sort_key_stable)

lemma search_current_cached:
  assumes "cachedPlayers st = Some m"
  shows "searchNHLPlayers coll query answer st =
           (Array_sort (compare_current coll (trim (toLowerCase query)))
              (matching_players (trim (toLowerCase query)) m), st)"
proof (cases "m = []")
  case True
  then show ?thesis
    using assms by (simp add: searchNHLPlayers_def loadAllPlayers_cached matching_players_def Map_values_def)
next
  case False
  then show ?thesis
    using assms by (simp add: searchNHLPlayers_def loadAllPlayers_cached Let_def)
qed

lemma search_legacy_cached:
  assumes "cachedPlayers st = Some m"
  shows "searchNHLPlayers_legacy query answer st =
           (Array_sort (compare_legacy (trim (toLowerCase query)))
              (matching_players (trim (toLowerCase query)) m), st)"
proof (cases "m = []")
  case True
  then show ?thesis
    using assms by (simp add: searchNHLPlayers_legacy_def loadAllPlayers_cached matching_players_def Map_values_def)
next
  case False
  then show ?thesis
    using assms by (simp add: searchNHLPlayers_legacy_def loadAllPlayers_cached Let_def)
qed

text \<open>
  C2 (as amended). With a cached directory, a search issues no request and returns
  exactly the entries whose lower-cased full name contains the trimmed, lower-cased query.
  In the current revision, for every consistent collation \<^verbatim>\<open>localeCompare\<close>, the results
  are ordered by tier (exact match, prefix match, other match) and inside a tier
  alphabetically by lower-cased name, that is, by the collation. In the legacy revision
  they are ordered by tier, and inside a tier they keep the order of the directory.
\<close>

theorem search_ranking:
  assumes "cachedPlayers st = Some m" and "q = trim (toLowerCase query)"
  shows "mset (fst (searchNHLPlayers localeCompare query answer st))
           = mset (map to_api (filter (name_contains q) (Map_values m)))
         \<and> (consistent_comparison localeCompare \<longrightarrow>
              sorted_wrt (ranked_before localeCompare q)
                (fst (searchNHLPlayers localeCompare query answer st)))
         \<and> snd (searchNHLPlayers localeCompare query answer st) = st
         \<and> mset (fst (searchNHLPlayers_legacy query answer st))
           = mset (map to_api (filter (name_contains q) (Map_values m)))
         \<and> sorted_wrt (tier_before q) (fst (searchNHLPlayers_legacy query answer st))
         \<and> filter (\<lambda>e. tier q e = k) (fst (searchNHLPlayers_legacy query answer st))
           = filter (\<lambda>e. tier q e = k) (map to_api (filter (name_contains q) (Map_values m)))
         \<and> snd (searchNHLPlayers_legacy query answer st) = st"
proof -
  let ?ms = "map to_api (filter (name_contains q) (Map_values m))"
  have cur: "fst (searchNHLPlayers localeCompare query answer st)
      = Array_sort (compare_current localeCompare q) ?ms"
    using assms by (simp add: search_current_cached matching_players_filter)
  have leg: "fst (searchNHLPlayers_legacy query answer st) = Array_sort (compare_legacy q) ?ms"
    using assms by (simp add: search_legacy_cached matching_players_filter)
  have st1: "snd (searchNHLPlayers localeCompare query answer st) = st"
    using assms by (simp add: search_current_cached)
  have st2: "snd (searchNHLPlayers_legacy query answer st) = st"
    using assms by (simp add: search_legacy_cached)
  have srt: "consistent_comparison localeCompare \<longrightarrow>
      sorted_wrt (ranked_before localeCompare q) (Array_sort (compare_current localeCompare q) ?ms)"
    using sorted_current by blast
  show ?thesis
    unfolding cur leg st1 st2
    using srt by (simp only: mset_Array_sort sorted_legacy stable_legacy simp_thms)
qed

lemma trim_lower_sample: "''mar'' = trim (toLowerCase '' Mar  '')"
  by (simp add: trim_def toLowerCase_def toLowerCase_char_def lower_table_def upper_units_def
      lower_units_def is_space_def)

theorem search_ranking_witness:
  "cachedPlayers \<lparr>cachedPlayers = Some [(7, \<lparr>entry_id = 7, fullName = ''Zed Mar''\<rparr>),
       (3, \<lparr>entry_id = 3, fullName = ''Marner''\<rparr>), (9, \<lparr>entry_id = 9, fullName = ''Connor McDavid''\<rparr>),
       (4, \<lparr>entry_id = 4, fullName = ''Al Mar''\<rparr>), (5, \<lparr>entry_id = 5, fullName = ''MAR''\<rparr>)],
       requests = []\<rparr>
     = Some [(7, \<lparr>entry_id = 7, fullName = ''Zed Mar''\<rparr>),
       (3, \<lparr>entry_id = 3, fullName = ''Marner''\<rparr>), (9, \<lparr>entry_id = 9, fullName = ''Connor McDavid''\<rparr>),
       (4, \<lparr>entry_id = 4, fullName = ''Al Mar''\<rparr>), (5, \<lparr>entry_id = 5, fullName = ''MAR''\<rparr>)]
   \<and> ''mar'' = trim (toLowerCase '' Mar  '')
   \<and> consistent_comparison code_unit_order
   \<and> sorted_wrt (ranked_before code_unit_order ''mar'')
        (fst (searchNHLPlayers code_unit_order '' Mar  '' NetworkError
          \<lparr>cachedPlayers = Some [(7, \<lparr>entry_id = 7, fullName = ''Zed Mar''\<rparr>),
             (3, \<lparr>entry_id = 3, fullName = ''Marner''\<rparr>), (9, \<lparr>entry_id = 9, fullName = ''Connor McDavid''\<rparr>),
             (4, \<lparr>entry_id = 4, fullName = ''Al Mar''\<rparr>), (5, \<lparr>entry_id = 5, fullName = ''MAR''\<rparr>)],
           requests = []\<rparr>))
   \<and> sorted_wrt (tier_before ''mar'')
        (fst (searchNHLPlayers_legacy '' Mar  '' NetworkError
          \<lparr>cachedPlayers = Some [(7, \<lparr>entry_id = 7, fullName = ''Zed Mar''\<rparr>),
             (3, \<lparr>entry_id = 3, fullName = ''Marner''\<rparr>), (9, \<lparr>entry_id = 9, fullName = ''Connor McDavid''\<rparr>),
             (4, \<lparr>entry_id = 4, fullName = ''Al Mar''\<rparr>), (5, \<lparr>entry_id = 5, fullName = ''MAR''\<rparr>)],
           requests = []\<rparr>))"
proof -
  let ?m = "[(7, \<lparr>entry_id = 7, fullName = ''Zed Mar''\<rparr>),
       (3, \<lparr>entry_id = 3, fullName = ''Marner''\<rparr>), (9, \<lparr>entry_id = 9, fullName = ''Connor McDavid''\<rparr>),
       (4, \<lparr>entry_id = 4, fullName = ''Al Mar''\<rparr>), (5, \<lparr>entry_id = 5, fullName = ''MAR''\<rparr>)]"
  let ?st = "\<lparr>cachedPlayers = Some ?m, requests = []\<rparr>"
  have c: "cachedPlayers ?st = Some ?m" by simp
  from search_ranking [OF c trim_lower_sample, of code_unit_order NetworkError 0]
    c trim_lower_sample consistent_code_unit_order
  show ?thesis by simp
qed

text \<open>
  The legacy comparator returns 0 for two results of one tier, so the stable sort leaves
  them in the directory's order: here "Zed Mar" stays before "Al Mar", against a
  collation that puts "al mar" first, as every alphabetical one does.
\<close>

theorem search_legacy_not_alphabetical:
  "fst (searchNHLPlayers_legacy ''mar'' NetworkError
     \<lparr>cachedPlayers = Some [(1, \<lparr>entry_id = 1, fullName = ''Zed Mar''\<rparr>),
                             (2, \<lparr>entry_id = 2, fullName = ''Al Mar''\<rparr>)],
      requests = []\<rparr>)
   = [\<lparr>api_id = 1, api_name = ''Zed Mar''\<rparr>, \<lparr>api_id = 2, api_name = ''Al Mar''\<rparr>]
   \<and> code_unit_order ''al mar'' ''zed mar'' < 0
   \<and> \<not> sorted_wrt (ranked_before code_unit_order ''mar'')
        (fst (searchNHLPlayers_legacy ''mar'' NetworkError
           \<lparr>cachedPlayers = Some [(1, \<lparr>entry_id = 1, fullName = ''Zed Mar''\<rparr>),
                                   (2, \<lparr>entry_id = 2, fullName = ''Al Mar''\<rparr>)],
            requests = []\<rparr>))"
  by code_simp

section \<open>Properties of the player directory cache\<close>





















section \<open>Properties of the statistics fetcher\<close>

lemma js_prop_not_null:
  "v \<noteq> JNull \<Longrightarrow> js_prop (Some v) k \<noteq> None"
  by (cases v) (simp_all add: js_prop_def)

lemma js_prop_undefined [simp]: "js_prop None k = None"
  by (simp add: js_prop_def)

lemma js_prop_null [simp]: "js_prop (Some JNull) k = None"
  by (simp add: js_prop_def)

lemma js_prop_object [simp]: "js_prop (Some (JObj members)) k = Some (map_of (rev members) k)"
  by (simp add: js_prop_def)

lemma truthy_object [simp]: "truthy (Some (JObj members))"
  by (simp add: truthy_def)

lemma truthy_array [simp]: "truthy (Some (JArr xs))"
  by (simp add: truthy_def)

lemma not_truthy_undefined [simp]: "\<not> truthy None"
  by (simp add: truthy_def)

lemma truthy_not_null: "truthy v \<Longrightarrow> \<exists>j. v = Some j \<and> j \<noteq> JNull"
  by (cases v) (auto simp: truthy_def)

lemma legacy_by_id_parsed:
  assumes "person_answer pid = Response True (Some data)"
  shows "getNHLPlayerStats_legacy gt (Inl pid) now pa person_answer st =
           ((case legacy_stats_of_payload gt (getCurrentNHLSeason now) data of
               None \<Rightarrow> None | Some result \<Rightarrow> result),
            fetch (PERSON_URL_legacy pid) st)"
  using assms by (simp add: getNHLPlayerStats_legacy_def Let_def split: option.splits)






lemma legacy_payload_person:
  assumes "first_person data = Some player"
  shows "legacy_stats_of_payload gt cs data =
           do {
             seasonData \<leftarrow> find_season_data cs (Some player);
             if \<not> truthy seasonData then map_option Some (zero_object_legacy (Some player))
             else do {
               gamesPlayed' \<leftarrow> js_prop seasonData ''gamesPlayed'';
               points' \<leftarrow> js_prop seasonData ''points'';
               shots' \<leftarrow> js_prop seasonData ''shots'';
               id' \<leftarrow> js_prop (Some player) ''id'';
               fullName' \<leftarrow> js_prop (Some player) ''fullName'';
               Some (Some \<lparr>obj_playerId = id', obj_playerName = fullName',
                          obj_pointsGames =
                            (if js_gt0 gt (js_or0 points') then js_or0 gamesPlayed'
                             else JNum 0),
                          obj_totalGames = js_or0 gamesPlayed',
                          obj_shots = js_or0 shots',
                          obj_points = js_or0 points'\<rparr>)
             }
           }"
proof -
  from assms obtain people' where
    p: "js_prop (Some data) ''people'' = Some people'" and t: "truthy people'"
    and l: "js_prop people' ''length'' \<noteq> Some (Some (JNum 0))"
    and f: "js_first people' = Some (Some player)" and n: "player \<noteq> JNull"
    by (auto simp: first_person_def split: option.splits if_splits)
  from t obtain pv where pv: "people' = Some pv" and "pv \<noteq> JNull"
    using truthy_not_null by blast
  then obtain len where len: "js_prop people' ''length'' = Some len"
    using js_prop_not_null [of pv "''length''"] by auto
  with l have len0: "len \<noteq> Some (JNum 0)" by simp
  obtain logged where lg: "js_prop (Some player) ''fullName'' = Some logged"
    using js_prop_not_null [OF n, of "''fullName''"] by auto
  show ?thesis
    by (simp add: legacy_stats_of_payload_def p t len len0 f lg)
qed


lemma js_or0_num [simp]: "js_or0 (Some (JNum n)) = JNum n"
  by (simp add: js_or0_def truthy_def)

lemma js_or0_undefined [simp]: "js_or0 None = JNum 0"
  by (simp add: js_or0_def)

lemma js_gt0_num [simp]: "js_gt0 gt (JNum n) = (n > 0)"
  by (simp add: js_gt0_def)

lemma find_throwing_map:
  assumes "\<And>x. callback (f x) = Some (P x)"
  shows "find_throwing callback (map f xs) = Some (map_option f (find P xs))"
  by (induction xs) (simp_all add: assms)

lemma person_members:
  "js_prop (Some (json_of_person p)) ''id'' = Some (Some (JNum (person_id p)))"
  "js_prop (Some (json_of_person p)) ''fullName'' = Some (Some (JStr (person_fullName p)))"
  "js_prop (Some (json_of_person p)) ''stats''
     = Some (map_option (\<lambda>groups. JArr (map json_of_group groups)) (person_stats p))"
  by (cases "person_stats p"; simp add: json_of_person_def member_def)+

lemma group_members:
  "js_prop (Some (json_of_group g)) ''type''
     = Some (map_option (\<lambda>d. JObj [(''displayName'', JStr d)]) (displayName g))"
  "js_prop (Some (json_of_group g)) ''stats''
     = Some (map_option (\<lambda>records. JArr (map json_of_season records)) (group_stats g))"
  by (cases "displayName g"; cases "group_stats g"; simp add: json_of_group_def member_def)+

lemma season_members:
  "js_prop (Some (json_of_season sd)) ''season'' = Some (Some (JStr (season sd)))"
  "js_prop (Some (json_of_season sd)) ''gamesPlayed'' = Some (map_option JNum (gamesPlayed sd))"
  "js_prop (Some (json_of_season sd)) ''points'' = Some (map_option JNum (season_points sd))"
  "js_prop (Some (json_of_season sd)) ''shots'' = Some (map_option JNum (season_shots sd))"
  by (cases "gamesPlayed sd"; cases "season_points sd"; cases "season_shots sd";
      simp add: json_of_season_def member_def)+

lemma is_regular_season_typed:
  "is_regular_season (json_of_group g) = Some (displayName g = Some ''regularSeasonStatRest'')"
  by (cases "displayName g") (simp_all add: is_regular_season_def group_members)

lemma is_season_typed: "is_season cs (json_of_season sd) = Some (season sd = cs)"
  by (simp add: is_season_def season_members)

lemma js_or_empty_typed:
  "js_or_empty (map_option (\<lambda>xs. JArr (map f xs)) v) = JArr (map f (or_empty v))"
  by (cases v) (simp_all add: js_or_empty_def or_empty_def)

lemma truthy_group [simp]: "truthy (Some (json_of_group g))"
  by (simp add: json_of_group_def)

lemma truthy_season [simp]: "truthy (Some (json_of_season sd))"
  by (simp add: json_of_season_def)

lemma find_season_data_typed:
  "find_season_data cs (Some (json_of_person p))
     = Some (map_option json_of_season (season_record cs p))"
proof -
  let ?groups = "or_empty (person_stats p)"
  have g: "Array_find is_regular_season (JArr (map json_of_group ?groups))
      = Some (map_option json_of_group
          (find (\<lambda>s. displayName s = Some ''regularSeasonStatRest'') ?groups))"
    by (simp add: Array_find_def find_throwing_map is_regular_season_typed)
  show ?thesis
  proof (cases "find (\<lambda>s. displayName s = Some ''regularSeasonStatRest'') ?groups")
    case None
    then show ?thesis
      by (simp add: find_season_data_def person_members js_or_empty_typed g season_record_def)
  next
    case (Some rss)
    have "Array_find (is_season cs) (JArr (map json_of_season (or_empty (group_stats rss))))
        = Some (map_option json_of_season (find (\<lambda>s. season s = cs) (or_empty (group_stats rss))))"
      by (simp add: Array_find_def find_throwing_map is_season_typed)
    then show ?thesis
      using Some
      by (simp add: find_season_data_def person_members js_or_empty_typed g season_record_def
          group_members)
  qed
qed

lemma first_person_typed:
  "first_person (json_of_payload (Some (player # others))) = Some (json_of_person player)"
  "first_person (json_of_payload (Some [])) = None"
  "first_person (json_of_payload None) = None"
  by (simp_all add: first_person_def json_of_payload_def member_def js_prop_def js_first_def
      json_of_person_def)

lemma zero_object_legacy_typed:
  "zero_object_legacy (Some (json_of_person p))
     = Some \<lparr>obj_playerId = Some (JNum (person_id p)),
             obj_playerName = Some (JStr (person_fullName p)), obj_pointsGames = JNum 0,
             obj_totalGames = JNum 0, obj_shots = JNum 0, obj_points = JNum 0\<rparr>"
  by (simp add: zero_object_legacy_def person_members)








lemma no_splits_no_stats: "map_of (rev members) ''stats'' = None \<Longrightarrow> no_splits (JObj members) = Some True"
  by (simp add: no_splits_def)







lemma legacy_well_formed:
  assumes "person_answer pid = Response True (Some (json_of_payload (Some (p # others))))"
  shows "fst (getNHLPlayerStats_legacy gt (Inl pid) now pa person_answer st)
           = Some (case season_record (getCurrentNHLSeason now) p of
                     None \<Rightarrow>
                       \<lparr>obj_playerId = Some (JNum (person_id p)),
                        obj_playerName = Some (JStr (person_fullName p)),
                        obj_pointsGames = JNum 0, obj_totalGames = JNum 0,
                        obj_shots = JNum 0, obj_points = JNum 0\<rparr>
                   | Some sd \<Rightarrow>
                       \<lparr>obj_playerId = Some (JNum (person_id p)),
                        obj_playerName = Some (JStr (person_fullName p)),
                        obj_pointsGames =
                          (if js_gt0 gt (js_or0 (map_option JNum (season_points sd)))
                           then js_or0 (map_option JNum (gamesPlayed sd)) else JNum 0),
                        obj_totalGames = js_or0 (map_option JNum (gamesPlayed sd)),
                        obj_shots = js_or0 (map_option JNum (season_shots sd)),
                        obj_points = js_or0 (map_option JNum (season_points sd))\<rparr>)"
  using assms
  by (cases "season_record (getCurrentNHLSeason now) p")
     (simp_all add: legacy_by_id_parsed legacy_payload_person [OF first_person_typed(1)]
        find_season_data_typed zero_object_legacy_typed season_members person_members)




text \<open>
  C10. In the legacy revision, when the response carries the player's record and that
  record has a record of the current regular season with \<open>g\<close> games played and \<open>p\<close>
  points, the snapshot's \<^verbatim>\<open>pointsGames\<close> is \<open>g\<close> when \<open>p > 0\<close> and 0 otherwise: the whole
  count of games played, gated on having any point.
\<close>

theorem legacy_pointsGames:
  assumes "person_answer pid = Response True (Some (json_of_payload (Some (player # others))))"
    and "season_record (getCurrentNHLSeason now) player = Some sd"
    and "gamesPlayed sd = Some g" and "season_points sd = Some p"
  shows "\<exists>r. fst (getNHLPlayerStats_legacy gt (Inl pid) now pa person_answer st) = Some r
           \<and> obj_pointsGames r = JNum (if p > 0 then g else 0)
           \<and> obj_totalGames r = JNum g \<and> obj_points r = JNum p"
  using assms by (simp add: legacy_well_formed)

theorem legacy_pointsGames_witness:
  "season_record (getCurrentNHLSeason sample_date) sample_person = Some sample_season
   \<and> gamesPlayed sample_season = Some 67 \<and> season_points sample_season = Some 100
   \<and> (\<exists>r. fst (getNHLPlayerStats_legacy (\<lambda>v. False) (Inl 8478402) sample_date NetworkError
                 (\<lambda>i. Response True (Some (json_of_payload (Some [sample_person]))))
                 sample_fresh) = Some r
          \<and> obj_pointsGames r = JNum 67 \<and> obj_totalGames r = JNum 67 \<and> obj_points r = JNum 100)"
proof -
  have s: "getCurrentNHLSeason sample_date = ''20242025''"
    by (simp add: getCurrentNHLSeason_def toString_def nat_digits_unfold digit_char_def
        sample_date_def)
  have h: "season_record (getCurrentNHLSeason sample_date) sample_person = Some sample_season"
    by (simp add: s season_record_def or_empty_def sample_person_def sample_season_def)
  have g: "gamesPlayed sample_season = Some 67 \<and> season_points sample_season = Some 100"
    by (simp add: sample_season_def)
  from legacy_pointsGames [of "\<lambda>i. Response True (Some (json_of_payload (Some [sample_person])))"
      8478402 sample_person "[]" sample_date sample_season 67 100 "\<lambda>v. False" NetworkError
      sample_fresh, OF _ h]
  show ?thesis using h g by simp
qed

section \<open>Properties of the ratios\<close>

lemma js_div_zero_zero: "js_div 0 0 = NaN"
  by (simp add: js_div_def)

text \<open>
  C6. For every row, the points ratio and the shots ratio are defined: when the
  denominator (\<^verbatim>\<open>points_total_games\<close>, respectively \<^verbatim>\<open>shots_total_games\<close>) is 0 the
  current revision's average is the number 0 and the legacy revision's percentage is the
  string \<^verbatim>\<open>0.0\<close>, whatever the numerator; the averages are never NaN and never infinite.
\<close>

theorem ratios_total:
  "(points_total_games player = 0 \<longrightarrow>
      pointsAverage player = Finite 0 \<and> pointsAverage player \<noteq> NaN
      \<and> pointsPercentage toFixed1 player = ''0.0'')
   \<and> (shots_total_games player = 0 \<longrightarrow>
      shotsPerGame player = Finite 0 \<and> shotsPerGame player \<noteq> NaN
      \<and> shotsPercentage toFixed1 player = ''0.0'')
   \<and> pointsAverage player \<noteq> NaN \<and> shotsPerGame player \<noteq> NaN
   \<and> pointsAverage player \<noteq> PosInfinity \<and> pointsAverage player \<noteq> NegInfinity
   \<and> shotsPerGame player \<noteq> PosInfinity \<and> shotsPerGame player \<noteq> NegInfinity"
  by (simp add: pointsAverage_def shotsPerGame_def pointsPercentage_def shotsPercentage_def js_div_def)

theorem ratios_total_witness:
  "points_total_games sample_manual = 0 \<and> shots_total_games sample_manual = 0
   \<and> shots_games sample_manual = 5
   \<and> pointsAverage sample_manual = Finite 0 \<and> shotsPerGame sample_manual = Finite 0
   \<and> pointsPercentage (\<lambda>_. ''NaN'') sample_manual = ''0.0''
   \<and> shotsPercentage (\<lambda>_. ''Infinity'') sample_manual = ''0.0''"
proof -
  have h: "points_total_games sample_manual = 0 \<and> shots_total_games sample_manual = 0
      \<and> shots_games sample_manual = 5"
    by (simp add: sample_manual_def)
  from ratios_total [of sample_manual "\<lambda>_. ''NaN''"] ratios_total [of sample_manual "\<lambda>_. ''Infinity''"] h
  show ?thesis by simp
qed

section \<open>Properties of the repository update\<close>

lemma supabase_update_length: "length (supabase_update values i tbl) = length tbl"
  by (simp add: supabase_update_def)

lemma supabase_update_nth:
  "k < length tbl \<Longrightarrow>
   supabase_update values i tbl ! k
     = (if row_id (tbl ! k) = i then write_fields values (tbl ! k) else tbl ! k)"
  by (simp add: supabase_update_def)

text \<open>
  C8 (as amended). An accepted update writes the caller's fields and, over them, the
  reading of the client's clock as \<^verbatim>\<open>updated_at\<close>, to every row with the given
  identifier: the stamp replaces an \<^verbatim>\<open>updated_at\<close> the caller supplies and is written
  even when the caller supplies no field. Rows with another identifier are untouched, and
  a rejected update changes nothing. The new \<^verbatim>\<open>updated_at\<close> is at or after the prior one
  exactly when the clock reading is.
\<close>

theorem handleUpdatePlayer_stamps:
  "(reply i = Written \<and> k < length tbl \<and> row_id (tbl ! k) = i \<longrightarrow>
      snd (handleUpdatePlayer reply now i updates tbl) ! k
        = (write_fields updates (tbl ! k))\<lparr>updated_at := now\<rparr>
      \<and> updated_at (snd (handleUpdatePlayer reply now i updates tbl) ! k) = now
      \<and> snd (handleUpdatePlayer reply now i no_fields tbl) ! k = (tbl ! k)\<lparr>updated_at := now\<rparr>
      \<and> (updated_at (tbl ! k) \<le> updated_at (snd (handleUpdatePlayer reply now i updates tbl) ! k))
          = (updated_at (tbl ! k) \<le> now))
   \<and> (reply i = Written \<and> k < length tbl \<and> row_id (tbl ! k) \<noteq> i \<longrightarrow>
      snd (handleUpdatePlayer reply now i updates tbl) ! k = tbl ! k)
   \<and> (reply i = Rejected \<longrightarrow> handleUpdatePlayer reply now i updates tbl = (True, tbl))
   \<and> length (snd (handleUpdatePlayer reply now i updates tbl)) = length tbl"
proof -
  have len: "length (snd (handleUpdatePlayer reply now i updates tbl)) = length tbl"
    by (cases "reply i") (simp_all add: handleUpdatePlayer_def supabase_update_length)
  have rej: "reply i = Rejected \<longrightarrow> handleUpdatePlayer reply now i updates tbl = (True, tbl)"
    by (simp add: handleUpdatePlayer_def)
  have other: "reply i = Written \<and> k < length tbl \<and> row_id (tbl ! k) \<noteq> i \<longrightarrow>
      snd (handleUpdatePlayer reply now i updates tbl) ! k = tbl ! k"
    by (simp add: handleUpdatePlayer_def supabase_update_nth)
  have same: "reply i = Written \<and> k < length tbl \<and> row_id (tbl ! k) = i \<longrightarrow>
      snd (handleUpdatePlayer reply now i updates tbl) ! k
        = (write_fields updates (tbl ! k))\<lparr>updated_at := now\<rparr>
      \<and> updated_at (snd (handleUpdatePlayer reply now i updates tbl) ! k) = now
      \<and> snd (handleUpdatePlayer reply now i no_fields tbl) ! k = (tbl ! k)\<lparr>updated_at := now\<rparr>
      \<and> (updated_at (tbl ! k) \<le> updated_at (snd (handleUpdatePlayer reply now i updates tbl) ! k))
          = (updated_at (tbl ! k) \<le> now)"
    by (simp add: handleUpdatePlayer_def supabase_update_nth write_fields_def or_else_def
        no_fields_def)
  from same other rej len show ?thesis by blast
qed

theorem handleUpdatePlayer_stamps_witness:
  "row_id ([sample_active, sample_idle] ! 0) = ''row-1''
   \<and> updated_at ([sample_active, sample_idle] ! 0) = 100
   \<and> snd (handleUpdatePlayer (\<lambda>_. Written) 200 ''row-1''
            (no_fields\<lparr>p_shots_threshold := Some (3 / 2), p_updated_at := Some 7\<rparr>)
            [sample_active, sample_idle]) ! 0
       = sample_active\<lparr>shots_threshold := 3 / 2, updated_at := 200\<rparr>
   \<and> snd (handleUpdatePlayer (\<lambda>_. Written) 200 ''row-1'' no_fields [sample_active, sample_idle]) ! 0
       = sample_active\<lparr>updated_at := 200\<rparr>
   \<and> snd (handleUpdatePlayer (\<lambda>_. Written) 200 ''row-1''
            (no_fields\<lparr>p_shots_threshold := Some (3 / 2), p_updated_at := Some 7\<rparr>)
            [sample_active, sample_idle]) ! 1 = sample_idle
   \<and> handleUpdatePlayer (\<lambda>_. Rejected) 200 ''row-1'' no_fields [sample_active, sample_idle]
       = (True, [sample_active, sample_idle])"
proof -
  let ?u = "no_fields\<lparr>p_shots_threshold := Some (3 / 2), p_updated_at := Some 7\<rparr>"
  let ?t = "[sample_active, sample_idle]"
  have h: "row_id (?t ! 0) = ''row-1'' \<and> updated_at (?t ! 0) = 100 \<and> row_id (?t ! 1) \<noteq> ''row-1''"
    by (simp add: sample_active_def sample_idle_def)
  have wf: "write_fields ?u sample_active = sample_active\<lparr>shots_threshold := 3 / 2, updated_at := 7\<rparr>"
    by (simp add: write_fields_def or_else_def no_fields_def sample_active_def)
  from handleUpdatePlayer_stamps [of "\<lambda>_. Written" "''row-1''" 0 ?t 200 ?u]
    handleUpdatePlayer_stamps [of "\<lambda>_. Written" "''row-1''" 1 ?t 200 ?u]
    handleUpdatePlayer_stamps [of "\<lambda>_. Rejected" "''row-1''" 0 ?t 200 no_fields] h wf
  show ?thesis by simp
qed

text \<open>
  The stamp is the client's clock, the prior value may come from another clock (the
  server's default, another client): with a reading of 50 against a stored 100 the
  update moves \<^verbatim>\<open>updated_at\<close> back.
\<close>

theorem handleUpdatePlayer_stamp_before_prior:
  "updated_at ([sample_active] ! 0) = 100
   \<and> updated_at (snd (handleUpdatePlayer (\<lambda>_. Written) 50 ''row-1'' no_fields [sample_active]) ! 0) = 50
   \<and> \<not> updated_at ([sample_active] ! 0)
        \<le> updated_at (snd (handleUpdatePlayer (\<lambda>_. Written) 50 ''row-1'' no_fields [sample_active]) ! 0)"
  by (simp add: handleUpdatePlayer_def supabase_update_def write_fields_def or_else_def
      no_fields_def sample_active_def)

section \<open>Properties of the refresh pass\<close>

lemma refresh_player_failure:
  "failure_reason w p = Some r \<Longrightarrow> refresh_player w p s = push_failure (name p) r s"
  by (auto simp: failure_reason_def refresh_player_def
      split: if_splits outcome.splits option.splits write_reply.splits)

lemma failure_reason_None:
  "failure_reason w p = None \<longleftrightarrow>
     nhl_player_id p \<noteq> 0
     \<and> (\<exists>st. fetchStats w (nhl_player_id p) = Returned (Some st) \<and> totalGames st \<noteq> 0)
     \<and> storage w (row_id p) = Returned Written"
  by (auto simp: failure_reason_def
      split: if_splits outcome.splits option.splits write_reply.splits)

lemma refresh_player_written:
  assumes "nhl_player_id p \<noteq> 0" and "fetchStats w (nhl_player_id p) = Returned (Some st)"
    and "totalGames st \<noteq> 0" and "storage w (row_id p) = Returned Written"
  shows "refresh_player w p s
           = s\<lparr>table := supabase_update (stats_fields st (clock w (row_id p))) (row_id p) (table s),
               updatedCount := updatedCount s + 1\<rparr>"
  using assms by (simp add: refresh_player_def)

lemma refresh_player_cases:
  "(\<exists>r. failure_reason w p = Some r \<and> refresh_player w p s = push_failure (name p) r s)
   \<or> (failure_reason w p = None
      \<and> (\<exists>st. fetchStats w (nhl_player_id p) = Returned (Some st) \<and> totalGames st \<noteq> 0
            \<and> refresh_player w p s
                = s\<lparr>table := supabase_update (stats_fields st (clock w (row_id p))) (row_id p) (table s),
                    updatedCount := updatedCount s + 1\<rparr>))"
proof (cases "failure_reason w p")
  case None
  then show ?thesis using refresh_player_written [of p w _ s] by (auto simp: failure_reason_None)
next
  case (Some r)
  then show ?thesis by (simp add: refresh_player_failure)
qed

lemma updatedCount_fold:
  "updatedCount (fold (refresh_player w) ps s)
     = updatedCount s + length (filter (\<lambda>p. failure_reason w p = None) ps)"
proof (induction ps arbitrary: s)
  case Nil
  then show ?case by simp
next
  case (Cons p ps)
  show ?case
    using refresh_player_cases [of w p s] Cons.IH [of "refresh_player w p s"]
    by (auto simp: push_failure_def)
qed

lemma failedPlayers_fold:
  "failedPlayers (fold (refresh_player w) ps s)
     = failedPlayers s
       @ map (\<lambda>p. (name p, the (failure_reason w p))) (filter (\<lambda>p. failure_reason w p \<noteq> None) ps)"
proof (induction ps arbitrary: s)
  case Nil
  then show ?case by simp
next
  case (Cons p ps)
  show ?case
    using refresh_player_cases [of w p s] Cons.IH [of "refresh_player w p s"]
    by (auto simp: push_failure_def)
qed

lemma table_refresh_player:
  "table (refresh_player w p s) = table_step w p (table s)"
  using refresh_player_cases [of w p s]
    refresh_player_cases [of w p "\<lparr>updatedCount = 0, failedPlayers = [], table = table s\<rparr>"]
  by (auto simp: table_step_def push_failure_def)

lemma table_fold:
  "table (fold (refresh_player w) ps s) = fold (table_step w) ps (table s)"
  by (induction ps arbitrary: s) (simp_all add: table_refresh_player)

lemma table_step_failure:
  "failure_reason w p \<noteq> None \<Longrightarrow> table_step w p tbl = tbl"
  using refresh_player_cases [of w p "\<lparr>updatedCount = 0, failedPlayers = [], table = tbl\<rparr>"]
  by (auto simp: table_step_def push_failure_def)

lemma table_step_written:
  assumes "nhl_player_id p \<noteq> 0" and "fetchStats w (nhl_player_id p) = Returned (Some st)"
    and "totalGames st \<noteq> 0" and "storage w (row_id p) = Returned Written"
  shows "table_step w p tbl = supabase_update (stats_fields st (clock w (row_id p))) (row_id p) tbl"
  using assms by (simp add: table_step_def refresh_player_written)

lemma fold_table_step_filter:
  "fold (table_step w) ps tbl = fold (table_step w) (filter (\<lambda>p. failure_reason w p = None) ps) tbl"
  by (induction ps arbitrary: tbl) (auto simp: table_step_failure)


lemma write_stats_fields:
  "write_fields (stats_fields st now) r
     = r\<lparr>points_games := pointsGames st, points_total_games := totalGames st,
         shots_games := shots st, shots_total_games := totalGames st, updated_at := now\<rparr>"
  by (simp add: write_fields_def stats_fields_def no_fields_def or_else_def)

lemma refresh_player_legacy_cases:
  "(\<exists>r. failure_reason_legacy w p = Some r \<and> refresh_player_legacy w p s = push_failure (name p) r s)
   \<or> (failure_reason_legacy w p = None
      \<and> (\<exists>st. fetchStats w (name p) = Returned (Some st) \<and> totalGames st \<noteq> 0
            \<and> storage w (row_id p) = Returned Written
            \<and> refresh_player_legacy w p s
                = s\<lparr>table := supabase_update (stats_fields st (clock w (row_id p))) (row_id p) (table s),
                    updatedCount := updatedCount s + 1\<rparr>))"
  by (auto simp: failure_reason_legacy_def refresh_player_legacy_def
      split: if_splits outcome.splits option.splits write_reply.splits)

lemma failedPlayers_fold_legacy:
  "failedPlayers (fold (refresh_player_legacy w) ps s)
     = failedPlayers s
       @ map (\<lambda>p. (name p, the (failure_reason_legacy w p)))
           (filter (\<lambda>p. failure_reason_legacy w p \<noteq> None) ps)"
proof (induction ps arbitrary: s)
  case Nil
  then show ?case by simp
next
  case (Cons p ps)
  show ?case
    using refresh_player_legacy_cases [of w p s] Cons.IH [of "refresh_player_legacy w p s"]
    by (auto simp: push_failure_def)
qed

lemma table_refresh_player_legacy:
  "table (refresh_player_legacy w p s) = table_step_legacy w p (table s)"
  using refresh_player_legacy_cases [of w p s]
    refresh_player_legacy_cases [of w p "\<lparr>updatedCount = 0, failedPlayers = [], table = table s\<rparr>"]
  by (auto simp: table_step_legacy_def push_failure_def)

lemma table_fold_legacy:
  "table (fold (refresh_player_legacy w) ps s) = fold (table_step_legacy w) ps (table s)"
  by (induction ps arbitrary: s) (simp_all add: table_refresh_player_legacy)

lemma table_step_cases:
  fixes w :: "(int, 'a) Services"
  shows "table_step w q tbl = tbl
   \<or> (\<exists>(st :: 'a PlayerStatsResult_scheme) now.
         table_step w q tbl = supabase_update (stats_fields st now) (row_id q) tbl)"
proof (cases "failure_reason w q")
  case None
  then obtain st where "fetchStats w (nhl_player_id q) = Returned (Some st)"
    and "totalGames st \<noteq> 0" and "nhl_player_id q \<noteq> 0"
    and "storage w (row_id q) = Returned Written"
    by (auto simp: failure_reason_None)
  then have "table_step w q tbl
      = supabase_update (stats_fields st (clock w (row_id q))) (row_id q) tbl"
    by (simp add: table_step_written)
  then show ?thesis by blast
next
  case (Some r)
  then show ?thesis by (simp add: table_step_failure)
qed

lemma table_step_legacy_cases:
  fixes w :: "(string, 'a) Services"
  shows "table_step_legacy w q tbl = tbl
   \<or> (\<exists>(st :: 'a PlayerStatsResult_scheme) now.
         table_step_legacy w q tbl = supabase_update (stats_fields st now) (row_id q) tbl)"
proof -
  let ?s = "\<lparr>updatedCount = 0, failedPlayers = [], table = tbl\<rparr>"
  from refresh_player_legacy_cases [of w q ?s] show ?thesis
  proof (elim disjE exE conjE)
    fix r
    assume "refresh_player_legacy w q ?s = push_failure (name q) r ?s"
    then show ?thesis by (simp add: table_step_legacy_def push_failure_def)
  next
    fix st :: "'a PlayerStatsResult_scheme"
    assume "refresh_player_legacy w q ?s
        = ?s\<lparr>table := supabase_update (stats_fields st (clock w (row_id q))) (row_id q) (table ?s),
              updatedCount := updatedCount ?s + 1\<rparr>"
    then have "table_step_legacy w q tbl
        = supabase_update (stats_fields st (clock w (row_id q))) (row_id q) tbl"
      by (simp add: table_step_legacy_def)
    then show ?thesis by blast
  qed
qed

lemma table_step_legacy_written:
  assumes "fetchStats w (name p) = Returned (Some st)"
    and "totalGames st \<noteq> 0" and "storage w (row_id p) = Returned Written"
  shows "table_step_legacy w p tbl = supabase_update (stats_fields st (clock w (row_id p))) (row_id p) tbl"
  using assms by (simp add: table_step_legacy_def refresh_player_legacy_def)

lemma row_id_write_stats_fields: "row_id (write_fields (stats_fields st now) r) = row_id r"
  by (simp add: write_stats_fields)

lemma map_row_id_stats_update:
  "map row_id (supabase_update (stats_fields st now) j tbl) = map row_id tbl"
  by (induction tbl) (simp_all add: supabase_update_def row_id_write_stats_fields)

lemma rows_of_other_stats_update:
  "i \<noteq> j \<Longrightarrow> rows_of i (supabase_update (stats_fields st now) j tbl) = rows_of i tbl"
  by (induction tbl) (simp_all add: supabase_update_def rows_of_def row_id_write_stats_fields)

lemma rows_of_same_stats_update:
  "rows_of j (supabase_update (stats_fields st now) j tbl)
     = map (write_fields (stats_fields st now)) (rows_of j tbl)"
  by (induction tbl) (simp_all add: supabase_update_def rows_of_def row_id_write_stats_fields)

lemma agree_stats_update:
  "list_all denominators_agree (rows_of i tbl) \<Longrightarrow>
   list_all denominators_agree (rows_of i (supabase_update (stats_fields st now) j tbl))"
proof (cases "i = j")
  case True
  have "list_all denominators_agree (map (write_fields (stats_fields st now)) (rows_of j tbl))"
    by (simp add: list_all_iff denominators_agree_def write_stats_fields)
  then show ?thesis using True by (simp add: rows_of_same_stats_update)
next
  case False
  assume "list_all denominators_agree (rows_of i tbl)"
  then show ?thesis using False by (simp add: rows_of_other_stats_update)
qed

lemma agree_after_stats_update:
  "list_all (\<lambda>r. points_total_games r = totalGames st \<and> shots_total_games r = totalGames st)
     (rows_of j (supabase_update (stats_fields st now) j tbl))"
  by (simp add: rows_of_same_stats_update list_all_iff write_stats_fields)

lemma agree_established:
  "list_all denominators_agree (rows_of j (supabase_update (stats_fields st now) j tbl))"
  using agree_after_stats_update [of st j now tbl]
  by (simp add: list_all_iff denominators_agree_def)

lemma agree_table_step:
  "list_all denominators_agree (rows_of i tbl) \<Longrightarrow>
   list_all denominators_agree (rows_of i (table_step w q tbl))"
  using table_step_cases [of w q tbl] agree_stats_update [of i tbl] by auto

lemma agree_table_step_legacy:
  "list_all denominators_agree (rows_of i tbl) \<Longrightarrow>
   list_all denominators_agree (rows_of i (table_step_legacy w q tbl))"
  using table_step_legacy_cases [of w q tbl] agree_stats_update [of i tbl] by auto

lemma agree_fold:
  "list_all denominators_agree (rows_of i tbl) \<Longrightarrow>
   list_all denominators_agree (rows_of i (fold (table_step w) ps tbl))"
  by (induction ps arbitrary: tbl) (simp_all add: agree_table_step)

lemma agree_fold_legacy:
  "list_all denominators_agree (rows_of i tbl) \<Longrightarrow>
   list_all denominators_agree (rows_of i (fold (table_step_legacy w) ps tbl))"
  by (induction ps arbitrary: tbl) (simp_all add: agree_table_step_legacy)

lemma agree_pass:
  assumes "p \<in> set ps"
    and "table_step w p = supabase_update (stats_fields st (clock w (row_id p))) (row_id p)"
  shows "list_all denominators_agree (rows_of (row_id p) (fold (table_step w) ps tbl))"
  using assms(1)
proof (induction ps arbitrary: tbl)
  case Nil
  then show ?case by simp
next
  case (Cons q qs)
  show ?case
  proof (cases "q = p")
    case True
    have "list_all denominators_agree (rows_of (row_id p) (table_step w p tbl))"
      by (simp add: assms(2) agree_established)
    then show ?thesis using True by (simp add: agree_fold)
  next
    case False
    then have "p \<in> set qs" using Cons.prems by simp
    then show ?thesis using Cons.IH by simp
  qed
qed

lemma agree_pass_legacy:
  assumes "p \<in> set ps"
    and "table_step_legacy w p = supabase_update (stats_fields st (clock w (row_id p))) (row_id p)"
  shows "list_all denominators_agree (rows_of (row_id p) (fold (table_step_legacy w) ps tbl))"
  using assms(1)
proof (induction ps arbitrary: tbl)
  case Nil
  then show ?case by simp
next
  case (Cons q qs)
  show ?case
  proof (cases "q = p")
    case True
    have "list_all denominators_agree (rows_of (row_id p) (table_step_legacy w p tbl))"
      by (simp add: assms(2) agree_established)
    then show ?thesis using True by (simp add: agree_fold_legacy)
  next
    case False
    then have "p \<in> set qs" using Cons.prems by simp
    then show ?thesis using Cons.IH by simp
  qed
qed

lemma map_row_id_table_step: "map row_id (table_step w q tbl) = map row_id tbl"
  using table_step_cases [of w q tbl] map_row_id_stats_update by auto

lemma map_row_id_table_step_legacy: "map row_id (table_step_legacy w q tbl) = map row_id tbl"
  using table_step_legacy_cases [of w q tbl] map_row_id_stats_update by auto

lemma map_row_id_fold: "map row_id (fold (table_step w) ps tbl) = map row_id tbl"
  by (induction ps arbitrary: tbl) (simp_all add: map_row_id_table_step)

lemma map_row_id_fold_legacy: "map row_id (fold (table_step_legacy w) ps tbl) = map row_id tbl"
  by (induction ps arbitrary: tbl) (simp_all add: map_row_id_table_step_legacy)

lemma rows_of_table_step_other:
  "row_id q \<noteq> i \<Longrightarrow> rows_of i (table_step w q tbl) = rows_of i tbl"
  using table_step_cases [of w q tbl] rows_of_other_stats_update [of i "row_id q"] by auto

lemma rows_of_table_step_legacy_other:
  "row_id q \<noteq> i \<Longrightarrow> rows_of i (table_step_legacy w q tbl) = rows_of i tbl"
  using table_step_legacy_cases [of w q tbl] rows_of_other_stats_update [of i "row_id q"] by auto

lemma rows_of_fold_unchanged:
  assumes "\<And>q. q \<in> set ps \<Longrightarrow> q = p \<or> row_id q \<noteq> row_id p"
    and "\<And>t. table_step w p t = t"
  shows "rows_of (row_id p) (fold (table_step w) ps tbl) = rows_of (row_id p) tbl"
  using assms(1)
proof (induction ps arbitrary: tbl)
  case Nil
  then show ?case by simp
next
  case (Cons q qs)
  have "rows_of (row_id p) (table_step w q tbl) = rows_of (row_id p) tbl"
    using Cons.prems [of q] assms(2) rows_of_table_step_other [of q "row_id p" w tbl] by auto
  moreover have "rows_of (row_id p) (fold (table_step w) qs (table_step w q tbl))
      = rows_of (row_id p) (table_step w q tbl)"
    using Cons.IH Cons.prems by simp
  ultimately show ?case by simp
qed

lemma rows_of_fold_legacy_unchanged:
  assumes "\<And>q. q \<in> set ps \<Longrightarrow> q = p \<or> row_id q \<noteq> row_id p"
    and "\<And>t. table_step_legacy w p t = t"
  shows "rows_of (row_id p) (fold (table_step_legacy w) ps tbl) = rows_of (row_id p) tbl"
  using assms(1)
proof (induction ps arbitrary: tbl)
  case Nil
  then show ?case by simp
next
  case (Cons q qs)
  have "rows_of (row_id p) (table_step_legacy w q tbl) = rows_of (row_id p) tbl"
    using Cons.prems [of q] assms(2) rows_of_table_step_legacy_other [of q "row_id p" w tbl] by auto
  moreover have "rows_of (row_id p) (fold (table_step_legacy w) qs (table_step_legacy w q tbl))
      = rows_of (row_id p) (table_step_legacy w q tbl)"
    using Cons.IH Cons.prems by simp
  ultimately show ?case by simp
qed

lemma primary_key:
  "distinct (map row_id ps) \<Longrightarrow> p \<in> set ps \<Longrightarrow> q \<in> set ps \<Longrightarrow> q = p \<or> row_id q \<noteq> row_id p"
  by (auto simp: distinct_map dest: inj_onD)

lemma table_step_legacy_failure:
  "failure_reason_legacy w p \<noteq> None \<Longrightarrow> table_step_legacy w p tbl = tbl"
  using refresh_player_legacy_cases [of w p "\<lparr>updatedCount = 0, failedPlayers = [], table = tbl\<rparr>"]
  by (auto simp: table_step_legacy_def push_failure_def)

lemma failure_recorded:
  "p \<in> set ps \<Longrightarrow> failure_reason w p = Some r \<Longrightarrow>
   (name p, r) \<in> set (failedPlayers (handleRefreshStats w ps tbl))"
  by (force simp: handleRefreshStats_def failedPlayers_fold)

lemma failure_recorded_legacy:
  "p \<in> set ps \<Longrightarrow> failure_reason_legacy w p = Some r \<Longrightarrow>
   (name p, r) \<in> set (failedPlayers (handleRefreshStats_legacy w ps tbl))"
  by (force simp: handleRefreshStats_legacy_def failedPlayers_fold_legacy)

lemmas sample_defs = sample_active_def sample_idle_def sample_manual_def sample_snapshot_def
  sample_services_def sample_services_legacy_def zero_stats_def

text \<open>
  C1. For every list made of three players, in any order, of which one has provider
  identifier 0, one has a fetch that returns a snapshot with no game played, and one has
  a fetch that returns a snapshot with ten games played and a storage write that is
  accepted, the pass reports one update and exactly two failures with distinct reasons,
  one for the missing identifier and one for no games played, and it leaves the table as
  it was except that every row of the third player holds the snapshot's figures:
  \<^verbatim>\<open>points_games\<close>, \<^verbatim>\<open>points_total_games\<close>, \<^verbatim>\<open>shots_games\<close>, \<^verbatim>\<open>shots_total_games\<close>.
\<close>

theorem refreshAll_three_players:
  assumes "mset players = {#p0, pz, ps#}"
    and "nhl_player_id p0 = 0"
    and "nhl_player_id pz \<noteq> 0" and "fetchStats w (nhl_player_id pz) = Returned (Some sz)"
    and "totalGames sz = 0"
    and "nhl_player_id ps \<noteq> 0" and "fetchStats w (nhl_player_id ps) = Returned (Some ss)"
    and "totalGames ss = 10" and "storage w (row_id ps) = Returned Written"
  shows "updatedCount (handleRefreshStats w players tbl) = 1
       \<and> length (failedPlayers (handleRefreshStats w players tbl)) = 2
       \<and> distinct (map snd (failedPlayers (handleRefreshStats w players tbl)))
       \<and> mset (failedPlayers (handleRefreshStats w players tbl))
           = {#(name p0, ''Missing NHL Player ID (Old manual entry)''),
               (name pz, ''No games played this season'')#}
       \<and> table (handleRefreshStats w players tbl)
           = map (\<lambda>r. if row_id r = row_id ps
                       then r\<lparr>points_games := pointsGames ss, points_total_games := totalGames ss,
                              shots_games := shots ss, shots_total_games := totalGames ss,
                              updated_at := clock w (row_id ps)\<rparr>
                       else r) tbl"
proof -
  let ?res = "handleRefreshStats w players tbl"
  let ?missing = "''Missing NHL Player ID (Old manual entry)''"
  let ?nogames = "''No games played this season''"
  have f0: "failure_reason w p0 = Some ?missing"
    using assms(2) by (simp add: failure_reason_def)
  have fz: "failure_reason w pz = Some ?nogames"
    using assms(3-5) by (simp add: failure_reason_def)
  have fs: "failure_reason w ps = None"
    using assms(6-9) by (simp add: failure_reason_None)
  have "mset (filter (\<lambda>p. failure_reason w p = None) players) = {#ps#}"
    using f0 fz fs by (simp add: assms(1))
  then have written: "filter (\<lambda>p. failure_reason w p = None) players = [ps]"
    by (simp only: mset_single_iff)
  have failed: "mset (filter (\<lambda>p. failure_reason w p \<noteq> None) players) = {#p0, pz#}"
    using f0 fz fs by (simp add: assms(1))
  have count: "updatedCount ?res = 1"
    by (simp add: handleRefreshStats_def updatedCount_fold written)
  have fp: "failedPlayers ?res
      = map (\<lambda>p. (name p, the (failure_reason w p))) (filter (\<lambda>p. failure_reason w p \<noteq> None) players)"
    by (simp add: handleRefreshStats_def failedPlayers_fold)
  have "mset (failedPlayers ?res)
      = image_mset (\<lambda>p. (name p, the (failure_reason w p))) {#p0, pz#}"
    unfolding fp using failed by (metis mset_map)
  then have ms: "mset (failedPlayers ?res) = {#(name p0, ?missing), (name pz, ?nogames)#}"
    using f0 fz by simp
  then have len: "length (failedPlayers ?res) = 2"
    by (metis size_mset size_add_mset size_empty numeral_2_eq_2)
  have "mset (map snd (failedPlayers ?res)) = mset [?missing, ?nogames]"
    using ms by (simp del: mset_map add: mset_map [of snd "failedPlayers ?res"])
  then have dist: "distinct (map snd (failedPlayers ?res))"
    using mset_eq_imp_distinct_iff [of "map snd (failedPlayers ?res)" "[?missing, ?nogames]"]
    by simp
  have "table ?res = fold (table_step w) [ps] tbl"
    using fold_table_step_filter [of w players tbl]
    by (simp add: handleRefreshStats_def table_fold written)
  then have tab: "table ?res
      = supabase_update (stats_fields ss (clock w (row_id ps))) (row_id ps) tbl"
    using table_step_written [of ps w ss tbl] assms(6-9) by simp
  show ?thesis
    using count len dist ms tab
    by (simp add: supabase_update_def write_stats_fields)
qed

theorem refreshAll_three_players_witness:
  "mset [sample_idle, sample_manual, sample_active] = {#sample_manual, sample_idle, sample_active#}
   \<and> nhl_player_id sample_manual = 0
   \<and> fetchStats sample_services (nhl_player_id sample_idle) = Returned (Some (zero_stats 8480000))
   \<and> totalGames (zero_stats 8480000) = 0
   \<and> fetchStats sample_services (nhl_player_id sample_active) = Returned (Some sample_snapshot)
   \<and> totalGames sample_snapshot = 10
   \<and> updatedCount (handleRefreshStats sample_services [sample_idle, sample_manual, sample_active]
         [sample_active, sample_idle, sample_manual]) = 1
   \<and> failedPlayers (handleRefreshStats sample_services [sample_idle, sample_manual, sample_active]
         [sample_active, sample_idle, sample_manual])
       = [(''Some Rookie'', ''No games played this season''),
          (''Old Entry'', ''Missing NHL Player ID (Old manual entry)'')]
   \<and> table (handleRefreshStats sample_services [sample_idle, sample_manual, sample_active]
         [sample_active, sample_idle, sample_manual])
       = [sample_active\<lparr>points_games := 14, points_total_games := 10, shots_games := 37,
                         shots_total_games := 10, updated_at := 200\<rparr>,
          sample_idle, sample_manual]"
proof -
  have h1: "mset [sample_idle, sample_manual, sample_active]
      = {#sample_manual, sample_idle, sample_active#}" by simp
  have h2: "nhl_player_id sample_manual = 0" by (simp add: sample_defs)
  have h3: "nhl_player_id sample_idle \<noteq> 0" by (simp add: sample_defs)
  have h4: "fetchStats sample_services (nhl_player_id sample_idle) = Returned (Some (zero_stats 8480000))"
    by (simp add: sample_defs)
  have h5: "totalGames (zero_stats 8480000) = 0" by (simp add: sample_defs)
  have h6: "nhl_player_id sample_active \<noteq> 0" by (simp add: sample_defs)
  have h7: "fetchStats sample_services (nhl_player_id sample_active) = Returned (Some sample_snapshot)"
    by (simp add: sample_defs)
  have h8: "totalGames sample_snapshot = 10" by (simp add: sample_defs)
  have h9: "storage sample_services (row_id sample_active) = Returned Written"
    by (simp add: sample_defs)
  have fp: "failedPlayers (handleRefreshStats sample_services [sample_idle, sample_manual, sample_active]
         [sample_active, sample_idle, sample_manual])
       = [(''Some Rookie'', ''No games played this season''),
          (''Old Entry'', ''Missing NHL Player ID (Old manual entry)'')]"
    by (simp add: handleRefreshStats_def refresh_player_def push_failure_def sample_defs)
  have ids: "row_id sample_idle \<noteq> row_id sample_active \<and> row_id sample_manual \<noteq> row_id sample_active"
    by (simp add: sample_defs)
  from refreshAll_three_players [OF h1 h2 h3 h4 h5 h6 h7 h8 h9,
      of "[sample_active, sample_idle, sample_manual]"]
  show ?thesis using h1 h2 h4 h5 h7 h8 fp ids
    by (simp add: sample_snapshot_def) (simp add: sample_services_def)
qed

text \<open>
  C7. When a player's fetch returns a snapshot with no game played, the iteration for
  that player records the reason and changes nothing else: the table and the count of
  updates are as before. Over a whole pass on players with distinct row identifiers (the
  primary key), the rows of such a player are at the end what they were at the start, and
  the failure is among those reported. This holds in both revisions.
\<close>

theorem zero_games_no_write:
  "(nhl_player_id p \<noteq> 0 \<and> fetchStats w (nhl_player_id p) = Returned (Some st)
      \<and> totalGames st = 0 \<longrightarrow>
      refresh_player w p s
        = s\<lparr>failedPlayers := failedPlayers s @ [(name p, ''No games played this season'')]\<rparr>
      \<and> (p \<in> set players \<and> distinct (map row_id players) \<longrightarrow>
           rows_of (row_id p) (table (handleRefreshStats w players tbl)) = rows_of (row_id p) tbl
           \<and> (name p, ''No games played this season'')
               \<in> set (failedPlayers (handleRefreshStats w players tbl))))
   \<and> (fetchStats wl (name p) = Returned (Some sl) \<and> totalGames sl = 0 \<longrightarrow>
      refresh_player_legacy wl p s
        = s\<lparr>failedPlayers := failedPlayers s @ [(name p, ''No games played this season'')]\<rparr>
      \<and> (p \<in> set players \<and> distinct (map row_id players) \<longrightarrow>
           rows_of (row_id p) (table (handleRefreshStats_legacy wl players tbl)) = rows_of (row_id p) tbl
           \<and> (name p, ''No games played this season'')
               \<in> set (failedPlayers (handleRefreshStats_legacy wl players tbl))))"
proof (intro conjI impI)
  assume a: "nhl_player_id p \<noteq> 0 \<and> fetchStats w (nhl_player_id p) = Returned (Some st)
      \<and> totalGames st = 0"
  then have fr: "failure_reason w p = Some ''No games played this season''"
    by (simp add: failure_reason_def)
  show "refresh_player w p s
        = s\<lparr>failedPlayers := failedPlayers s @ [(name p, ''No games played this season'')]\<rparr>"
    using a by (simp add: refresh_player_def push_failure_def)
  assume b: "p \<in> set players \<and> distinct (map row_id players)"
  have "rows_of (row_id p) (fold (table_step w) players tbl) = rows_of (row_id p) tbl"
  proof (rule rows_of_fold_unchanged)
    fix q assume "q \<in> set players"
    then show "q = p \<or> row_id q \<noteq> row_id p" using b primary_key by blast
  next
    fix t show "table_step w p t = t" using fr by (simp add: table_step_failure)
  qed
  then show "rows_of (row_id p) (table (handleRefreshStats w players tbl)) = rows_of (row_id p) tbl"
    by (simp add: handleRefreshStats_def table_fold)
  show "(name p, ''No games played this season'')
               \<in> set (failedPlayers (handleRefreshStats w players tbl))"
    using b fr failure_recorded by blast
next
  assume a: "fetchStats wl (name p) = Returned (Some sl) \<and> totalGames sl = 0"
  then have fr: "failure_reason_legacy wl p = Some ''No games played this season''"
    by (simp add: failure_reason_legacy_def)
  show "refresh_player_legacy wl p s
        = s\<lparr>failedPlayers := failedPlayers s @ [(name p, ''No games played this season'')]\<rparr>"
    using a by (simp add: refresh_player_legacy_def push_failure_def)
  assume b: "p \<in> set players \<and> distinct (map row_id players)"
  have "rows_of (row_id p) (fold (table_step_legacy wl) players tbl) = rows_of (row_id p) tbl"
  proof (rule rows_of_fold_legacy_unchanged)
    fix q assume "q \<in> set players"
    then show "q = p \<or> row_id q \<noteq> row_id p" using b primary_key by blast
  next
    fix t show "table_step_legacy wl p t = t" using fr by (simp add: table_step_legacy_failure)
  qed
  then show "rows_of (row_id p) (table (handleRefreshStats_legacy wl players tbl)) = rows_of (row_id p) tbl"
    by (simp add: handleRefreshStats_legacy_def table_fold_legacy)
  show "(name p, ''No games played this season'')
               \<in> set (failedPlayers (handleRefreshStats_legacy wl players tbl))"
    using b fr failure_recorded_legacy by blast
qed

theorem zero_games_no_write_witness:
  "fetchStats sample_services (nhl_player_id sample_idle) = Returned (Some (zero_stats 8480000))
   \<and> fetchStats sample_services_legacy (name sample_idle) = Returned (Some (zero_stats 8480000))
   \<and> distinct (map row_id [sample_active, sample_idle, sample_manual])
   \<and> rows_of (row_id sample_idle)
        (table (handleRefreshStats sample_services [sample_active, sample_idle, sample_manual]
           [sample_active, sample_idle, sample_manual])) = [sample_idle]
   \<and> rows_of (row_id sample_idle)
        (table (handleRefreshStats_legacy sample_services_legacy
           [sample_active, sample_idle, sample_manual]
           [sample_active, sample_idle, sample_manual])) = [sample_idle]
   \<and> (name sample_idle, ''No games played this season'')
        \<in> set (failedPlayers (handleRefreshStats sample_services
             [sample_active, sample_idle, sample_manual] [sample_active, sample_idle, sample_manual]))
   \<and> (name sample_idle, ''No games played this season'')
        \<in> set (failedPlayers (handleRefreshStats_legacy sample_services_legacy
             [sample_active, sample_idle, sample_manual] [sample_active, sample_idle, sample_manual]))"
proof -
  let ?ps = "[sample_active, sample_idle, sample_manual]"
  have h1: "nhl_player_id sample_idle \<noteq> 0
      \<and> fetchStats sample_services (nhl_player_id sample_idle) = Returned (Some (zero_stats 8480000))
      \<and> totalGames (zero_stats 8480000) = 0"
    by (simp add: sample_defs)
  have h2: "fetchStats sample_services_legacy (name sample_idle) = Returned (Some (zero_stats 8480000))"
    by (simp add: sample_defs)
  have h3: "sample_idle \<in> set ?ps \<and> distinct (map row_id ?ps)"
    by (simp add: sample_defs)
  have h4: "rows_of (row_id sample_idle) ?ps = [sample_idle]"
    by (simp add: rows_of_def sample_defs)
  from zero_games_no_write [of sample_idle sample_services "zero_stats 8480000" _ ?ps ?ps
      sample_services_legacy "zero_stats 8480000"] h1 h2 h3 h4
  show ?thesis by simp
qed

text \<open>
  C9. When a pass updates a player (the fetch returns a snapshot with games played and
  the storage accepts the write), the iteration writes the snapshot's \<^verbatim>\<open>totalGames\<close> to
  both \<^verbatim>\<open>points_total_games\<close> and \<^verbatim>\<open>shots_total_games\<close> of the player's rows, and at
  the end of the pass the two denominators of each of these rows coincide; the pass changes
  no row identifier. This holds in both revisions.
\<close>

theorem refresh_denominators_agree:
  "(p \<in> set players \<and> nhl_player_id p \<noteq> 0
      \<and> fetchStats w (nhl_player_id p) = Returned (Some st) \<and> totalGames st \<noteq> 0
      \<and> storage w (row_id p) = Returned Written \<longrightarrow>
      list_all denominators_agree (rows_of (row_id p) (table (handleRefreshStats w players tbl)))
      \<and> map row_id (table (handleRefreshStats w players tbl)) = map row_id tbl
      \<and> list_all (\<lambda>r. points_total_games r = totalGames st \<and> shots_total_games r = totalGames st)
           (rows_of (row_id p) (table_step w p tbl)))
   \<and> (p \<in> set players
      \<and> fetchStats wl (name p) = Returned (Some sl) \<and> totalGames sl \<noteq> 0
      \<and> storage wl (row_id p) = Returned Written \<longrightarrow>
      list_all denominators_agree (rows_of (row_id p) (table (handleRefreshStats_legacy wl players tbl)))
      \<and> map row_id (table (handleRefreshStats_legacy wl players tbl)) = map row_id tbl
      \<and> list_all (\<lambda>r. points_total_games r = totalGames sl \<and> shots_total_games r = totalGames sl)
           (rows_of (row_id p) (table_step_legacy wl p tbl)))"
proof (intro conjI impI)
  assume a: "p \<in> set players \<and> nhl_player_id p \<noteq> 0
      \<and> fetchStats w (nhl_player_id p) = Returned (Some st) \<and> totalGames st \<noteq> 0
      \<and> storage w (row_id p) = Returned Written"
  then have step: "table_step w p = supabase_update (stats_fields st (clock w (row_id p))) (row_id p)"
    using table_step_written [of p w st] by (simp add: fun_eq_iff)
  show "list_all denominators_agree (rows_of (row_id p) (table (handleRefreshStats w players tbl)))"
    using a agree_pass [OF _ step, of players tbl] by (simp add: handleRefreshStats_def table_fold)
  show "map row_id (table (handleRefreshStats w players tbl)) = map row_id tbl"
    by (simp add: handleRefreshStats_def table_fold map_row_id_fold)
  show "list_all (\<lambda>r. points_total_games r = totalGames st \<and> shots_total_games r = totalGames st)
           (rows_of (row_id p) (table_step w p tbl))"
    by (simp add: step agree_after_stats_update)
next
  assume a: "p \<in> set players
      \<and> fetchStats wl (name p) = Returned (Some sl) \<and> totalGames sl \<noteq> 0
      \<and> storage wl (row_id p) = Returned Written"
  then have step: "table_step_legacy wl p = supabase_update (stats_fields sl (clock wl (row_id p))) (row_id p)"
    using table_step_legacy_written [of wl p sl] by (simp add: fun_eq_iff)
  show "list_all denominators_agree (rows_of (row_id p) (table (handleRefreshStats_legacy wl players tbl)))"
    using a agree_pass_legacy [OF _ step, of players tbl]
    by (simp add: handleRefreshStats_legacy_def table_fold_legacy)
  show "map row_id (table (handleRefreshStats_legacy wl players tbl)) = map row_id tbl"
    by (simp add: handleRefreshStats_legacy_def table_fold_legacy map_row_id_fold_legacy)
  show "list_all (\<lambda>r. points_total_games r = totalGames sl \<and> shots_total_games r = totalGames sl)
           (rows_of (row_id p) (table_step_legacy wl p tbl))"
    by (simp add: step agree_after_stats_update)
qed

theorem refresh_denominators_agree_witness:
  "sample_active \<in> set [sample_idle, sample_active]
   \<and> fetchStats sample_services (nhl_player_id sample_active) = Returned (Some sample_snapshot)
   \<and> fetchStats sample_services_legacy (name sample_active) = Returned (Some sample_snapshot)
   \<and> totalGames sample_snapshot = 10
   \<and> \<not> denominators_agree sample_active
   \<and> rows_of ''row-1'' [sample_active, sample_idle] = [sample_active]
   \<and> list_all denominators_agree
       (rows_of ''row-1''
          (table (handleRefreshStats sample_services [sample_idle, sample_active]
             [sample_active, sample_idle])))
   \<and> list_all denominators_agree
       (rows_of ''row-1''
          (table (handleRefreshStats_legacy sample_services_legacy [sample_idle, sample_active]
             [sample_active, sample_idle])))
   \<and> map row_id (table (handleRefreshStats sample_services [sample_idle, sample_active]
             [sample_active, sample_idle])) = [''row-1'', ''row-2'']"
proof -
  let ?ps = "[sample_idle, sample_active]"
  let ?t = "[sample_active, sample_idle]"
  have h1: "sample_active \<in> set ?ps \<and> nhl_player_id sample_active \<noteq> 0
      \<and> fetchStats sample_services (nhl_player_id sample_active) = Returned (Some sample_snapshot)
      \<and> totalGames sample_snapshot \<noteq> 0
      \<and> storage sample_services (row_id sample_active) = Returned Written"
    by (simp add: sample_defs)
  have h2: "fetchStats sample_services_legacy (name sample_active) = Returned (Some sample_snapshot)
      \<and> storage sample_services_legacy (row_id sample_active) = Returned Written"
    by (simp add: sample_defs)
  have r: "row_id sample_active = ''row-1''" by (simp add: sample_defs)
  have h3: "totalGames sample_snapshot = 10 \<and> \<not> denominators_agree sample_active
      \<and> rows_of ''row-1'' ?t = [sample_active]
      \<and> map row_id ?t = [''row-1'', ''row-2'']"
    by (simp add: sample_defs denominators_agree_def rows_of_def)
  from refresh_denominators_agree [of sample_active ?ps sample_services sample_snapshot ?t
      sample_services_legacy sample_snapshot] h1 h2 h3
  show ?thesis by (simp add: r)
qed

end
